theory Spec2Isabelle
  imports Main "HOL-Library.Word" "HOL-Library.Stream"
begin

unbundle bit_operations_syntax

section \<open>IrDA sockets (irda.c): the embedding\<close>

text \<open>
  The module wraps the IrDA socket interface of the operating system. Everything it does
  is a sequence of calls into the C library and the kernel, so the model makes that
  sequence explicit: the \<open>world\<close> holds the answers the operating system is going to
  give (one per call, in order), the calls issued so far, and the last-error cell
  (\<open>errno\<close> on POSIX, \<open>WSAGetLastError ()\<close> on Windows). Each C function becomes a
  function from the world to its \<open>int\<close> return value and the new world.

  The source has two bodies, selected by \<open>_WIN32\<close>. The POSIX body reads and writes
  32-bit integer fields of kernel structures in host byte order, so the POSIX platform
  carries the byte order of the host.

  Left out: the \<open>TRACE\<close> macro (it prints a message and puts the error code back, so
  it changes nothing that is modelled), the text of error messages (\<open>irda_errmsg\<close>),
  \<open>irda_init\<close> and \<open>irda_cleanup\<close>, and the contents of the buffers that \<open>recv\<close> fills
  and \<open>send\<close> reads (the calls are recorded with offset and length). The layouts of the
  kernel structures and the numeric values of \<open>AF_IRDA\<close>, \<open>EAGAIN\<close> and
  \<open>WSAEWOULDBLOCK\<close> come from the system headers (\<open>linux/irda.h\<close>, \<open>af_irda.h\<close>,
  \<open>errno.h\<close>, \<open>winsock2.h\<close>), which the source includes.
\<close>

subsection \<open>Platforms and machine types\<close>

datatype byte_order = LittleEndian | BigEndian

datatype platform = POSIX byte_order | WIN32

type_synonym u8 = "8 word"
type_synonym u32 = "32 word"

text \<open>Four consecutive bytes of memory, lowest address first.\<close>

type_synonym bytes4 = "u8 \<times> u8 \<times> u8 \<times> u8"

text \<open>
  \<open>(b0 << 24) + (b1 << 16) + (b2 << 8) + b3\<close>, as the Windows body of
  \<open>irda_socket_discover\<close> writes it, in \<open>unsigned int\<close> arithmetic.
\<close>

definition be32 :: "bytes4 \<Rightarrow> u32" where
  "be32 b = (case b of (b0, b1, b2, b3) \<Rightarrow>
     push_bit 24 (ucast b0) + push_bit 16 (ucast b1) + push_bit 8 (ucast b2) + ucast b3)"

text \<open>
  \<open>(address >> 24) & 0xFF\<close>, \<open>(address >> 16) & 0xFF\<close>, \<open>(address >> 8) & 0xFF\<close>,
  \<open>address & 0xFF\<close>, as the Windows bodies of the connect functions write them.
\<close>

definition split32 :: "u32 \<Rightarrow> bytes4" where
  "split32 a = (ucast (drop_bit 24 a AND 0xFF), ucast (drop_bit 16 a AND 0xFF),
                ucast (drop_bit 8 a AND 0xFF), ucast (a AND 0xFF))"

text \<open>
  Reading and writing a \<open>__u32\<close> structure field that lies in memory as four bytes: the
  compiler uses the byte order of the host.
\<close>

definition load_u32 :: "byte_order \<Rightarrow> bytes4 \<Rightarrow> u32" where
  "load_u32 bo b = (case b of (b0, b1, b2, b3) \<Rightarrow>
     (case bo of BigEndian \<Rightarrow> be32 (b0, b1, b2, b3)
               | LittleEndian \<Rightarrow> be32 (b3, b2, b1, b0)))"

definition store_u32 :: "byte_order \<Rightarrow> u32 \<Rightarrow> bytes4" where
  "store_u32 bo a = (case split32 a of (b0, b1, b2, b3) \<Rightarrow>
     (case bo of BigEndian \<Rightarrow> (b0, b1, b2, b3)
               | LittleEndian \<Rightarrow> (b3, b2, b1, b0)))"

text \<open>
  The conversion of an \<open>unsigned int\<close> to the \<open>int\<close> a function returns: values above
  \<open>INT_MAX\<close> come out negative (two's complement).
\<close>

definition to_int :: "u32 \<Rightarrow> int" where
  "to_int x = sint x"

subsection \<open>Structures\<close>

text \<open>\<open>struct irda\<close>: the device handle. \<open>timeout\<close> is a \<open>long\<close> in milliseconds.\<close>

record irda =
  fd :: int
  timeout :: int

record timeval =
  tv_sec :: int
  tv_usec :: int

text \<open>
  One entry of \<open>struct irda_device_list\<close> (POSIX). \<open>daddr\<close> is a \<open>__u32\<close>; the record
  keeps the four bytes the kernel stored in the buffer \<open>data\<close>, and the code reads them
  with \<open>load_u32\<close>. \<open>hints\<close> is the array \<open>hints[2]\<close>.
\<close>

record irda_device_info =
  daddr :: bytes4
  info :: string
  charset :: u8
  hints :: "u8 \<times> u8"

text \<open>One entry of \<open>DEVICELIST\<close> (Windows); \<open>irdaDeviceID\<close> is a byte array.\<close>

record IRDA_DEVICE_INFO =
  irdaDeviceID :: bytes4
  irdaDeviceName :: string
  irdaDeviceHints1 :: u8
  irdaDeviceHints2 :: u8
  irdaCharSet :: u8

text \<open>
  The peer address handed to \<open>connect\<close>. On POSIX \<open>sir_lsap_sel\<close> is a \<open>__u8\<close> and
  \<open>sir_addr\<close> a \<open>__u32\<close>, kept here as the four bytes that lie in the structure; the
  name fields are arrays of 25 characters.
\<close>

record sockaddr_irda =
  sir_family :: int
  sir_lsap_sel :: u8
  sir_addr :: bytes4
  sir_name :: string

record SOCKADDR_IRDA =
  irdaAddressFamily :: int
  sa_irdaDeviceID :: bytes4
  irdaServiceName :: string

datatype sockaddr = Sockaddr_irda sockaddr_irda | Sockaddr_IRDA SOCKADDR_IRDA

definition AF_IRDA :: "platform \<Rightarrow> int" where
  "AF_IRDA p = (case p of POSIX _ \<Rightarrow> 23 | WIN32 \<Rightarrow> 26)"

subsection \<open>The operating system\<close>

text \<open>
  The calls the module issues, with the arguments that matter. \<open>C_recv\<close> and \<open>C_send\<close>
  carry the offset into the caller's buffer and the length asked for; \<open>C_getsockopt\<close>
  is the \<open>IRLMP_ENUMDEVICES\<close> query with the capacity of the buffer in entries;
  \<open>C_sleep\<close> counts seconds and \<open>C_Sleep\<close> milliseconds. \<open>Callback\<close> is an invocation
  of the caller's discovery callback (address, name, charset, hints, userdata).
\<close>

datatype event =
    C_malloc
  | C_free
  | C_socket int
  | C_shutdown int int
  | C_close int
  | C_getsockopt int nat
  | C_sleep nat
  | C_Sleep nat
  | C_connect int sockaddr
  | C_ioctl int
  | C_select int "timeval option"
  | C_recv int u32 u32
  | C_send int u32 u32
  | Callback u32 string u32 u32 nat

text \<open>
  What the operating system answers to one call: the value returned, the last-error
  code left behind, and what it stored through the output pointer of the call
  (\<open>out_bytes\<close> for \<open>FIONREAD\<close>, the device list for the enumeration query in the
  layout of the platform). \<open>out_tv\<close> is what \<open>select\<close> stores into the \<open>timeval\<close> it is
  handed: Linux overwrites it with the time left (\<open>Some\<close>), other systems leave it as
  it is (\<open>None\<close>). A device list is the list of its entries: the count
  (\<open>len\<close>, \<open>numDevice\<close>) is the length of the list, and \<open>dev[i]\<close>, \<open>Device[i]\<close> is
  its \<open>i\<close>-th element.
\<close>

record os_reply =
  ret :: int
  err :: int
  out_bytes :: int
  out_tv :: "timeval option"
  out_list :: "irda_device_info list"
  out_DEVICELIST :: "IRDA_DEVICE_INFO list"

record world =
  replies :: "os_reply stream"
  trace :: "event list"
  errno :: int

text \<open>A call that returns something: it takes the next answer.\<close>

definition os :: "event \<Rightarrow> world \<Rightarrow> os_reply \<times> world" where
  "os c w = (shd (replies w),
     \<lparr>replies = stl (replies w), trace = trace w @ [c], errno = err (shd (replies w))\<rparr>)"

text \<open>A call whose result the code does not look at (\<open>free\<close>, \<open>sleep\<close>) or a callback.\<close>

definition emit :: "event \<Rightarrow> world \<Rightarrow> world" where
  "emit c w = \<lparr>replies = replies w, trace = trace w @ [c], errno = errno w\<rparr>"

subsection \<open>Last error\<close>

definition irda_errcode :: "world \<Rightarrow> int" where
  "irda_errcode w = errno w"

subsection \<open>Lifecycle\<close>

text \<open>
  \<open>irda_socket_open (irda **out)\<close>: the flag says whether \<open>out\<close> is non-null, the second
  component of the result is what is stored to \<open>*out\<close>. \<open>malloc\<close> answers with the
  address of the block, 0 for \<open>NULL\<close>; \<open>socket\<close> answers with the descriptor, \<open>-1\<close>
  (\<open>INVALID_SOCKET\<close>, all bits set) on failure.
\<close>

definition irda_socket_open :: "platform \<Rightarrow> bool \<Rightarrow> world \<Rightarrow> int \<times> irda option \<times> world" where
  "irda_socket_open p out w =
    (if \<not> out then (-1, None, w)
     else
       let (m, w1) = os C_malloc w in
       if ret m = 0 then (-1, None, w1)
       else
         let (s, w2) = os (C_socket (AF_IRDA p)) w1;
             device = \<lparr>fd = ret s, timeout = -1\<rparr>
         in if fd device = -1 then (-1, None, emit C_free w2)
            else (0, Some device, w2))"

definition irda_socket_close :: "irda option \<Rightarrow> world \<Rightarrow> int \<times> world" where
  "irda_socket_close device w =
    (case device of
       None \<Rightarrow> (-1, w)
     | Some d \<Rightarrow>
         let (_, w1) = os (C_shutdown (fd d) 0) w;
             (c, w2) = os (C_close (fd d)) w1
         in if ret c \<noteq> 0 then (-1, emit C_free w2)
            else (0, emit C_free w2))"

text \<open>\<open>irda_socket_set_timeout\<close> returns the handle as it is after the call.\<close>

definition irda_socket_set_timeout :: "irda option \<Rightarrow> int \<Rightarrow> int \<times> irda option" where
  "irda_socket_set_timeout device t =
    (case device of
       None \<Rightarrow> (-1, None)
     | Some d \<Rightarrow> (0, Some (d\<lparr>timeout := t\<rparr>)))"

subsection \<open>Discovery\<close>

definition DISCOVER_MAX_DEVICES :: nat where
  "DISCOVER_MAX_DEVICES = 16"

definition DISCOVER_MAX_RETRIES :: nat where
  "DISCOVER_MAX_RETRIES = 4"

text \<open>\<open>EAGAIN\<close> on POSIX (Linux), \<open>WSAEWOULDBLOCK\<close> on Windows.\<close>

definition would_block :: "platform \<Rightarrow> int" where
  "would_block p = (case p of POSIX _ \<Rightarrow> 11 | WIN32 \<Rightarrow> 10035)"

text \<open>\<open>sleep (1)\<close> on POSIX, \<open>Sleep (1000)\<close> on Windows.\<close>

definition nap :: "platform \<Rightarrow> event" where
  "nap p = (case p of POSIX _ \<Rightarrow> C_sleep 1 | WIN32 \<Rightarrow> C_Sleep 1000)"

definition duration_ms :: "event \<Rightarrow> nat" where
  "duration_ms e = (case e of C_sleep s \<Rightarrow> 1000 * s | C_Sleep ms \<Rightarrow> ms | _ \<Rightarrow> 0)"

text \<open>
  The \<open>while\<close> loop around \<open>getsockopt\<close>, with the retry counter \<open>n\<close>. It leaves either
  through a \<open>return\<close> (\<open>Inl\<close> the value returned) or normally, with the buffer the query
  filled (\<open>Inr\<close>).
\<close>

function discover_loop :: "platform \<Rightarrow> int \<Rightarrow> nat \<Rightarrow> world \<Rightarrow> (int + os_reply) \<times> world" where
  "discover_loop p s n w =
    (let (r, w1) = os (C_getsockopt s DISCOVER_MAX_DEVICES) w in
     if ret r \<noteq> 0 then
       if irda_errcode w1 \<noteq> would_block p then (Inl (-1), w1)
       else if n \<ge> DISCOVER_MAX_RETRIES then (Inl 0, w1)
       else discover_loop p s (n + 1) (emit (nap p) w1)
     else (Inr r, w1))"
  by pat_completeness auto
termination
  by (relation "measure (\<lambda>(p, s, n, w). DISCOVER_MAX_RETRIES - n)") auto

declare discover_loop.simps [simp del]

text \<open>The arguments of the callback for one entry, in each layout.\<close>

definition posix_callback :: "byte_order \<Rightarrow> nat \<Rightarrow> irda_device_info \<Rightarrow> event" where
  "posix_callback bo userdata e =
    (let hints = push_bit 8 (ucast (fst (hints e))) + ucast (snd (hints e))
     in Callback (load_u32 bo (daddr e)) (info e) (ucast (charset e)) hints userdata)"

definition win32_callback :: "nat \<Rightarrow> IRDA_DEVICE_INFO \<Rightarrow> event" where
  "win32_callback userdata e =
    (let address = be32 (irdaDeviceID e);
         hints = push_bit 8 (ucast (irdaDeviceHints1 e)) + ucast (irdaDeviceHints2 e)
     in Callback address (irdaDeviceName e) (ucast (irdaCharSet e)) hints userdata)"

text \<open>The \<open>for\<close> loop over the entries of the list.\<close>

fun report :: "('e \<Rightarrow> event) \<Rightarrow> 'e list \<Rightarrow> world \<Rightarrow> world" where
  "report cb [] w = w"
| "report cb (e # es) w = report cb es (emit (cb e) w)"

definition irda_socket_discover ::
  "platform \<Rightarrow> irda option \<Rightarrow> bool \<Rightarrow> nat \<Rightarrow> world \<Rightarrow> int \<times> world" where
  "irda_socket_discover p device callback userdata w =
    (case device of
       None \<Rightarrow> (-1, w)
     | Some d \<Rightarrow>
         (case discover_loop p (fd d) 0 w of
            (Inl rc, w1) \<Rightarrow> (rc, w1)
          | (Inr r, w1) \<Rightarrow>
              (0, if callback then
                    (case p of
                       WIN32 \<Rightarrow> report (win32_callback userdata) (out_DEVICELIST r) w1
                     | POSIX bo \<Rightarrow> report (posix_callback bo userdata) (out_list r) w1)
                  else w1)))"

subsection \<open>Connecting\<close>

definition NUL :: char where
  "NUL = CHR 0x00"

text \<open>\<open>strncpy (dst, src, n)\<close> and \<open>memset (dst, 0, n)\<close> on a character array.\<close>

definition strncpy :: "string \<Rightarrow> nat \<Rightarrow> string" where
  "strncpy src n = take n src @ replicate (n - length src) NUL"

definition zeros :: "nat \<Rightarrow> string" where
  "zeros n = replicate n NUL"

text \<open>
  \<open>snprintf (dst, n, ...)\<close> into an array that was all zero: at most \<open>n - 1\<close>
  characters of the text, the rest stays \<open>NUL\<close>.
\<close>

definition snprintf :: "nat \<Rightarrow> string \<Rightarrow> string" where
  "snprintf n s = take (n - 1) s @ replicate (n - length (take (n - 1) s)) NUL"

text \<open>The text of a C string held in an array: the characters before the first \<open>NUL\<close>.\<close>

definition c_str :: "string \<Rightarrow> string" where
  "c_str a = takeWhile (\<lambda>c. c \<noteq> NUL) a"

text \<open>\<open>%u\<close>: the decimal digits of an unsigned number.\<close>

definition digit :: "nat \<Rightarrow> char" where
  "digit d = ''0123456789'' ! d"

function decimal :: "nat \<Rightarrow> string" where
  "decimal n = (if n < 10 then [digit n] else decimal (n div 10) @ [digit (n mod 10)])"
  by pat_completeness auto
termination
  by (relation "measure (\<lambda>n. n)") auto

declare decimal.simps [simp del]

definition peer_name :: "platform \<Rightarrow> u32 \<Rightarrow> string option \<Rightarrow> sockaddr" where
  "peer_name p address name =
    (case p of
       WIN32 \<Rightarrow> Sockaddr_IRDA
         \<lparr>irdaAddressFamily = AF_IRDA p,
          sa_irdaDeviceID = split32 address,
          irdaServiceName = (case name of Some s \<Rightarrow> strncpy s 25 | None \<Rightarrow> zeros 25)\<rparr>
     | POSIX bo \<Rightarrow> Sockaddr_irda
         \<lparr>sir_family = AF_IRDA p,
          sir_lsap_sel = 0,
          sir_addr = store_u32 bo address,
          sir_name = (case name of Some s \<Rightarrow> strncpy s 25 | None \<Rightarrow> zeros 25)\<rparr>)"

definition peer_lsap :: "platform \<Rightarrow> u32 \<Rightarrow> u32 \<Rightarrow> sockaddr" where
  "peer_lsap p address lsap =
    (case p of
       WIN32 \<Rightarrow> Sockaddr_IRDA
         \<lparr>irdaAddressFamily = AF_IRDA p,
          sa_irdaDeviceID = split32 address,
          irdaServiceName = snprintf 25 (''LSAP-SEL'' @ decimal (unat lsap))\<rparr>
     | POSIX bo \<Rightarrow> Sockaddr_irda
         \<lparr>sir_family = AF_IRDA p,
          sir_lsap_sel = ucast lsap,
          sir_addr = store_u32 bo address,
          sir_name = zeros 25\<rparr>)"

definition irda_socket_connect_name ::
  "platform \<Rightarrow> irda option \<Rightarrow> u32 \<Rightarrow> string option \<Rightarrow> world \<Rightarrow> int \<times> world" where
  "irda_socket_connect_name p device address name w =
    (case device of
       None \<Rightarrow> (-1, w)
     | Some d \<Rightarrow>
         let (r, w1) = os (C_connect (fd d) (peer_name p address name)) w
         in if ret r \<noteq> 0 then (-1, w1) else (0, w1))"

definition irda_socket_connect_lsap ::
  "platform \<Rightarrow> irda option \<Rightarrow> u32 \<Rightarrow> u32 \<Rightarrow> world \<Rightarrow> int \<times> world" where
  "irda_socket_connect_lsap p device address lsap w =
    (case device of
       None \<Rightarrow> (-1, w)
     | Some d \<Rightarrow>
         let (r, w1) = os (C_connect (fd d) (peer_lsap p address lsap)) w
         in if ret r \<noteq> 0 then (-1, w1) else (0, w1))"

subsection \<open>Input and output\<close>

text \<open>
  \<open>ioctl (FIONREAD)\<close> stores the count in an \<open>int\<close> on POSIX and in an
  \<open>unsigned long\<close> on Windows, which the \<open>return\<close> converts to \<open>int\<close>.
\<close>

definition irda_socket_available :: "platform \<Rightarrow> irda option \<Rightarrow> world \<Rightarrow> int \<times> world" where
  "irda_socket_available p device w =
    (case device of
       None \<Rightarrow> (-1, w)
     | Some d \<Rightarrow>
         let (r, w1) = os (C_ioctl (fd d)) w
         in if ret r \<noteq> 0 then (-1, w1)
            else (case p of POSIX _ \<Rightarrow> (out_bytes r, w1)
                          | WIN32 \<Rightarrow> (to_int (word_of_int (out_bytes r)), w1)))"

text \<open>
  \<open>struct timeval tv = {0}\<close>, filled from the timeout once, before the loop, when the
  timeout is not negative.
\<close>

definition tv_init :: "irda \<Rightarrow> timeval" where
  "tv_init d =
    (if timeout d \<ge> 0
     then \<lparr>tv_sec = timeout d div 1000, tv_usec = (timeout d mod 1000) * 1000\<rparr>
     else \<lparr>tv_sec = 0, tv_usec = 0\<rparr>)"

text \<open>
  The \<open>while (nbytes < size)\<close> loop of \<open>irda_socket_read\<close> (\<open>sz\<close> is its \<open>size\<close>). Every
  round hands \<open>select\<close> the same variable: \<open>&tv\<close> when the timeout is not negative,
  \<open>NULL\<close> otherwise; what \<open>select\<close> stores into \<open>tv\<close> is what the next round hands
  over. Nothing in the code bounds the number of rounds (it depends on what \<open>recv\<close>
  answers), so the loop is a partial function: \<open>None\<close> is a read that never returns.
\<close>

partial_function (option) read_loop ::
  "irda \<Rightarrow> u32 \<Rightarrow> timeval \<Rightarrow> u32 \<Rightarrow> world \<Rightarrow> (int \<times> world) option" where
  "read_loop d sz tv nbytes w =
    (if nbytes < sz then
       (let (rc, w1) = os (C_select (fd d + 1) (if timeout d \<ge> 0 then Some tv else None)) w;
            tv = (if timeout d \<ge> 0 then (case out_tv rc of Some t \<Rightarrow> t | None \<Rightarrow> tv) else tv)
        in
        if ret rc < 0 then Some (-1, w1)
        else if ret rc = 0 then Some (to_int nbytes, w1)
        else
          let (n, w2) = os (C_recv (fd d) nbytes (sz - nbytes)) w1 in
          if ret n < 0 then Some (-1, w2)
          else if ret n = 0 then Some (to_int nbytes, w2)
          else read_loop d sz tv (nbytes + word_of_int (ret n)) w2)
     else Some (to_int nbytes, w))"

definition irda_socket_read :: "irda option \<Rightarrow> u32 \<Rightarrow> world \<Rightarrow> (int \<times> world) option" where
  "irda_socket_read device sz w =
    (case device of
       None \<Rightarrow> Some (-1, w)
     | Some d \<Rightarrow> read_loop d sz (tv_init d) 0 w)"

text \<open>
  The \<open>while (nbytes < size)\<close> loop of \<open>irda_socket_write\<close>, on the descriptor \<open>s\<close>
  of the device. A \<open>send\<close> that takes nothing leaves the loop where it was, so this
  loop too may run forever.
\<close>

partial_function (option) write_loop :: "int \<Rightarrow> u32 \<Rightarrow> u32 \<Rightarrow> world \<Rightarrow> (int \<times> world) option" where
  "write_loop s sz nbytes w =
    (if nbytes < sz then
       (let (n, w1) = os (C_send s nbytes (sz - nbytes)) w in
        if ret n < 0 then Some (-1, w1)
        else write_loop s sz (nbytes + word_of_int (ret n)) w1)
     else Some (to_int nbytes, w))"

definition irda_socket_write :: "irda option \<Rightarrow> u32 \<Rightarrow> world \<Rightarrow> (int \<times> world) option" where
  "irda_socket_write device sz w =
    (case device of
       None \<Rightarrow> Some (-1, w)
     | Some d \<Rightarrow> write_loop (fd d) sz 0 w)"

subsection \<open>Describing what the operating system answers\<close>

text \<open>
  The properties below speak about runs in which the operating system answers in a
  given way. \<open>reply r e\<close> is an answer that returns \<open>r\<close>, leaves the error code \<open>e\<close> and
  stores nothing; \<open>boot s\<close> is a fresh world in which the answers are going to be \<open>s\<close>.
\<close>

definition reply :: "int \<Rightarrow> int \<Rightarrow> os_reply" where
  "reply r e =
     \<lparr>ret = r, err = e, out_bytes = 0, out_tv = None, out_list = [], out_DEVICELIST = []\<rparr>"

definition boot :: "os_reply stream \<Rightarrow> world" where
  "boot s = \<lparr>replies = s, trace = [], errno = 0\<rparr>"

text \<open>The enumeration query fails and the error code says that it would block.\<close>

definition blocks :: "platform \<Rightarrow> os_reply \<Rightarrow> bool" where
  "blocks p r \<longleftrightarrow> ret r \<noteq> 0 \<and> err r = would_block p"

text \<open>
  One round of the read loop that goes through: the answer of \<open>select\<close> says that the
  socket is readable and the answer of \<open>recv\<close> delivers at least one byte.
\<close>

definition ready :: "os_reply \<times> os_reply \<Rightarrow> bool" where
  "ready x \<longleftrightarrow> 0 < ret (fst x) \<and> 0 < ret (snd x)"

definition round_replies :: "(os_reply \<times> os_reply) list \<Rightarrow> os_reply list" where
  "round_replies rs = concat (map (\<lambda>x. [fst x, snd x]) rs)"

text \<open>The bytes delivered by a list of rounds, and the bytes taken by a list of sends.\<close>

definition received :: "(os_reply \<times> os_reply) list \<Rightarrow> int" where
  "received rs = sum_list (map (\<lambda>x. ret (snd x)) rs)"

definition accepted :: "os_reply \<Rightarrow> bool" where
  "accepted r \<longleftrightarrow> 0 \<le> ret r"

definition sent :: "os_reply list \<Rightarrow> int" where
  "sent rs = sum_list (map ret rs)"

text \<open>
  The calls of \<open>select\<close> in a trace, in order, each with its two arguments that are
  recorded (\<open>nfds\<close> and the deadline).
\<close>

fun selects :: "event list \<Rightarrow> (int \<times> timeval option) list" where
  "selects [] = []"
| "selects (C_select n t # es) = (n, t) # selects es"
| "selects (e # es) = selects es"

text \<open>
  What a read on the handle \<open>d\<close> is expected to hand to \<open>select\<close> while its \<open>timeval\<close>
  holds \<open>tv\<close>; what the \<open>timeval\<close> holds after \<open>select\<close> has answered \<open>s\<close>; and the
  deadlines of the successive rounds whose calls of \<open>select\<close> are answered by \<open>ss\<close>.
\<close>

definition handed :: "irda \<Rightarrow> timeval \<Rightarrow> timeval option" where
  "handed d tv = (if timeout d < 0 then None else Some tv)"

definition tv_next :: "irda \<Rightarrow> timeval \<Rightarrow> os_reply \<Rightarrow> timeval" where
  "tv_next d tv s =
    (if timeout d < 0 then tv else (case out_tv s of None \<Rightarrow> tv | Some t \<Rightarrow> t))"

fun deadlines :: "irda \<Rightarrow> timeval \<Rightarrow> os_reply list \<Rightarrow> timeval option list" where
  "deadlines d tv [] = []"
| "deadlines d tv (s # ss) = handed d tv # deadlines d (tv_next d tv s) ss"

definition INT_MAX :: int where
  "INT_MAX = 2147483647"

section \<open>Properties\<close>

subsection \<open>Auxiliary facts\<close>

lemma reply_sel [simp]:
  "ret (reply r e) = r" "err (reply r e) = e" "out_bytes (reply r e) = 0"
  "out_tv (reply r e) = None"
  "out_list (reply r e) = []" "out_DEVICELIST (reply r e) = []"
  by (simp_all add: reply_def)

lemma boot_sel [simp]:
  "replies (boot s) = s" "trace (boot s) = []" "errno (boot s) = 0"
  by (simp_all add: boot_def)

lemma uint_advance:
  fixes a b :: u32
  assumes "0 \<le> k" "uint a + k \<le> uint b"
  shows "uint (a + word_of_int k) = uint a + k"
proof -
  have "uint b < 2 ^ 32" using uint_bounded [of b] by simp
  moreover have "0 \<le> uint a" by simp
  ultimately have "(uint a + k) mod 2 ^ 32 = uint a + k"
    using assms by (intro mod_pos_pos_trivial) linarith+
  then show ?thesis
    by (simp add: uint_word_ariths uint_word_of_int mod_add_right_eq)
qed

lemma uint_count:
  fixes sz :: u32
  assumes "0 \<le> k" "k \<le> uint sz"
  shows "uint (word_of_int k :: u32) = k"
  using uint_advance [of k 0 sz] assms by simp

lemma to_int_count:
  assumes "0 \<le> k" "k \<le> INT_MAX"
  shows "to_int (word_of_int k) = k"
  using assms by (simp add: to_int_def INT_MAX_def sint_sbintrunc' signed_take_bit_int_eq_self)

text \<open>The retry loop of the discovery, one answer at a time.\<close>

lemma discover_loop_retry:
  assumes "ret (shd (replies w)) \<noteq> 0" "err (shd (replies w)) = would_block p" "n < DISCOVER_MAX_RETRIES"
  shows "discover_loop p s n w = discover_loop p s (n + 1)
     \<lparr>replies = stl (replies w),
      trace = trace w @ [C_getsockopt s DISCOVER_MAX_DEVICES, nap p],
      errno = would_block p\<rparr>"
  using assms by (subst discover_loop.simps) (simp add: os_def emit_def irda_errcode_def)

lemma discover_loop_retries:
  assumes "list_all (blocks p) rs" "n + length rs \<le> DISCOVER_MAX_RETRIES" "replies w = rs @- rest"
  shows "discover_loop p s n w = discover_loop p s (n + length rs)
     \<lparr>replies = rest,
      trace = trace w @ concat (replicate (length rs) [C_getsockopt s DISCOVER_MAX_DEVICES, nap p]),
      errno = (if rs = [] then errno w else would_block p)\<rparr>"
  using assms
proof (induction rs arbitrary: n w)
  case Nil
  then show ?case by (cases w) simp
next
  case (Cons r rs)
  have "discover_loop p s n w = discover_loop p s (n + 1)
     \<lparr>replies = stl (replies w),
      trace = trace w @ [C_getsockopt s DISCOVER_MAX_DEVICES, nap p],
      errno = would_block p\<rparr>"
    using Cons.prems by (intro discover_loop_retry) (auto simp: blocks_def)
  also have "\<dots> = discover_loop p s (n + 1 + length rs)
     \<lparr>replies = rest,
      trace = (trace w @ [C_getsockopt s DISCOVER_MAX_DEVICES, nap p])
           @ concat (replicate (length rs) [C_getsockopt s DISCOVER_MAX_DEVICES, nap p]),
      errno = would_block p\<rparr>"
    using Cons.prems by (subst Cons.IH) auto
  finally show ?case by simp
qed

lemma discover_loop_fail:
  assumes "ret (shd (replies w)) \<noteq> 0" "err (shd (replies w)) \<noteq> would_block p"
  shows "discover_loop p s n w = (Inl (-1),
     \<lparr>replies = stl (replies w), trace = trace w @ [C_getsockopt s DISCOVER_MAX_DEVICES],
      errno = err (shd (replies w))\<rparr>)"
  using assms by (subst discover_loop.simps) (simp add: os_def irda_errcode_def)

lemma discover_loop_exhausted:
  assumes "ret (shd (replies w)) \<noteq> 0" "err (shd (replies w)) = would_block p" "n \<ge> DISCOVER_MAX_RETRIES"
  shows "discover_loop p s n w = (Inl 0,
     \<lparr>replies = stl (replies w), trace = trace w @ [C_getsockopt s DISCOVER_MAX_DEVICES],
      errno = would_block p\<rparr>)"
  using assms by (subst discover_loop.simps) (simp add: os_def irda_errcode_def)

lemma discover_loop_ok:
  assumes "ret (shd (replies w)) = 0"
  shows "discover_loop p s n w = (Inr (shd (replies w)),
     \<lparr>replies = stl (replies w), trace = trace w @ [C_getsockopt s DISCOVER_MAX_DEVICES],
      errno = err (shd (replies w))\<rparr>)"
  using assms by (subst discover_loop.simps) (simp add: os_def irda_errcode_def)

lemma report_eq: "report cb es w = \<lparr>replies = replies w, trace = trace w @ map cb es, errno = errno w\<rparr>"
  by (induction es arbitrary: w) (simp_all add: emit_def)

text \<open>The read loop, one round at a time.\<close>

lemma selects_append: "selects (xs @ ys) = selects xs @ selects ys"
  by (induction xs rule: selects.induct) simp_all

lemma read_loop_full:
  "\<not> nbytes < sz \<Longrightarrow> read_loop d sz tv nbytes w = Some (to_int nbytes, w)"
  by (subst read_loop.simps) simp

lemma read_loop_select_error:
  assumes "nbytes < sz" "ret (shd (replies w)) < 0"
  shows "read_loop d sz tv nbytes w = Some (-1,
     \<lparr>replies = stl (replies w), trace = trace w @ [C_select (fd d + 1) (handed d tv)],
      errno = err (shd (replies w))\<rparr>)"
  using assms by (subst read_loop.simps) (simp add: os_def handed_def)

lemma read_loop_timeout:
  assumes "nbytes < sz" "ret (shd (replies w)) = 0"
  shows "read_loop d sz tv nbytes w = Some (to_int nbytes,
     \<lparr>replies = stl (replies w), trace = trace w @ [C_select (fd d + 1) (handed d tv)],
      errno = err (shd (replies w))\<rparr>)"
  using assms by (subst read_loop.simps) (simp add: os_def handed_def)

lemma read_loop_recv_error:
  assumes "nbytes < sz" "0 < ret (shd (replies w))" "ret (shd (stl (replies w))) < 0"
  shows "read_loop d sz tv nbytes w = Some (-1,
     \<lparr>replies = stl (stl (replies w)),
      trace = trace w @ [C_select (fd d + 1) (handed d tv), C_recv (fd d) nbytes (sz - nbytes)],
      errno = err (shd (stl (replies w)))\<rparr>)"
  using assms by (subst read_loop.simps) (simp add: os_def handed_def)

lemma read_loop_eof:
  assumes "nbytes < sz" "0 < ret (shd (replies w))" "ret (shd (stl (replies w))) = 0"
  shows "read_loop d sz tv nbytes w = Some (to_int nbytes,
     \<lparr>replies = stl (stl (replies w)),
      trace = trace w @ [C_select (fd d + 1) (handed d tv), C_recv (fd d) nbytes (sz - nbytes)],
      errno = err (shd (stl (replies w)))\<rparr>)"
  using assms by (subst read_loop.simps) (simp add: os_def handed_def)

lemma read_loop_round:
  assumes "nbytes < sz" "0 < ret (shd (replies w))" "0 < ret (shd (stl (replies w)))"
  shows "read_loop d sz tv nbytes w =
     read_loop d sz (tv_next d tv (shd (replies w)))
       (nbytes + word_of_int (ret (shd (stl (replies w)))))
       \<lparr>replies = stl (stl (replies w)),
        trace = trace w @ [C_select (fd d + 1) (handed d tv), C_recv (fd d) nbytes (sz - nbytes)],
        errno = err (shd (stl (replies w)))\<rparr>"
  using assms by (subst read_loop.simps) (simp add: os_def handed_def tv_next_def)

lemma read_loop_rounds:
  assumes "list_all ready rs" "uint nbytes + received rs \<le> uint sz"
    "replies w = round_replies rs @- rest"
  shows "\<exists>w' es. read_loop d sz tv nbytes w =
         read_loop d sz (foldl (tv_next d) tv (map fst rs)) (nbytes + word_of_int (received rs)) w'
     \<and> replies w' = rest \<and> trace w' = trace w @ es
     \<and> selects es = map (Pair (fd d + 1)) (deadlines d tv (map fst rs))"
  using assms
proof (induction rs arbitrary: tv nbytes w)
  case Nil
  then show ?case by (intro exI [of _ w] exI [of _ "[]"]) (simp add: received_def round_replies_def)
next
  case (Cons x rs)
  obtain s r where x: "x = (s, r)" by (cases x)
  from Cons.prems have all: "list_all ready rs" and "ready x"
    by simp_all
  with x have pos: "0 < ret s" "0 < ret r"
    by (simp_all add: ready_def)
  have rec: "received (x # rs) = ret r + received rs"
    by (simp add: received_def x)
  have nonneg: "0 \<le> received rs"
    using all by (induction rs) (auto simp: received_def ready_def)
  from Cons.prems rec nonneg pos have lt: "nbytes < sz"
    by (simp add: word_less_def)
  from Cons.prems x have rep: "replies w = s ## r ## (round_replies rs @- rest)"
    by (simp add: round_replies_def)
  let ?nb = "nbytes + word_of_int (ret r)"
  let ?tv = "tv_next d tv s"
  let ?calls = "[C_select (fd d + 1) (handed d tv), C_recv (fd d) nbytes (sz - nbytes)]"
  let ?w1 = "\<lparr>replies = round_replies rs @- rest, trace = trace w @ ?calls, errno = err r\<rparr>"
  have step: "read_loop d sz tv nbytes w = read_loop d sz ?tv ?nb ?w1"
    using read_loop_round [of nbytes sz w d tv] lt pos rep by simp
  have adv: "uint ?nb = uint nbytes + ret r"
    using pos Cons.prems rec nonneg by (intro uint_advance [where b = sz]) simp_all
  then have "uint ?nb + received rs \<le> uint sz"
    using Cons.prems rec by simp
  from Cons.IH [OF all this, of ?w1 ?tv] obtain w' es where
    w': "read_loop d sz ?tv ?nb ?w1 =
           read_loop d sz (foldl (tv_next d) ?tv (map fst rs)) (?nb + word_of_int (received rs)) w'"
      "replies w' = rest" "trace w' = trace ?w1 @ es"
      "selects es = map (Pair (fd d + 1)) (deadlines d ?tv (map fst rs))"
    by auto
  have nb: "?nb + word_of_int (received rs) = nbytes + word_of_int (received (x # rs))"
    by (simp add: rec)
  have tv: "foldl (tv_next d) ?tv (map fst rs) = foldl (tv_next d) tv (map fst (x # rs))"
    by (simp add: x)
  have tr: "trace w' = trace w @ (?calls @ es)"
    using w'(3) by simp
  have sel: "selects (?calls @ es) = map (Pair (fd d + 1)) (deadlines d tv (map fst (x # rs)))"
    using w'(4) by (simp add: x)
  from step w'(1) have "read_loop d sz tv nbytes w =
      read_loop d sz (foldl (tv_next d) tv (map fst (x # rs)))
        (nbytes + word_of_int (received (x # rs))) w'"
    unfolding nb tv by simp
  with w'(2) tr sel show ?case by blast
qed

text \<open>The write loop, one \<open>send\<close> at a time.\<close>

lemma write_loop_full:
  "\<not> nbytes < sz \<Longrightarrow> write_loop s sz nbytes w = Some (to_int nbytes, w)"
  by (subst write_loop.simps) simp

lemma write_loop_error:
  assumes "nbytes < sz" "ret (shd (replies w)) < 0"
  shows "write_loop s sz nbytes w = Some (-1,
     \<lparr>replies = stl (replies w), trace = trace w @ [C_send s nbytes (sz - nbytes)],
      errno = err (shd (replies w))\<rparr>)"
  using assms by (subst write_loop.simps) (simp add: os_def)

lemma write_loop_send:
  assumes "nbytes < sz" "0 \<le> ret (shd (replies w))"
  shows "write_loop s sz nbytes w =
     write_loop s sz (nbytes + word_of_int (ret (shd (replies w))))
       \<lparr>replies = stl (replies w), trace = trace w @ [C_send s nbytes (sz - nbytes)],
        errno = err (shd (replies w))\<rparr>"
  using assms by (subst write_loop.simps) (simp add: os_def)

lemma sent_nonneg: "list_all accepted rs \<Longrightarrow> 0 \<le> sent rs"
  by (induction rs) (auto simp: sent_def accepted_def)

lemma received_nonneg: "list_all ready rs \<Longrightarrow> 0 \<le> received rs"
  by (induction rs) (auto simp: received_def ready_def)

lemma write_loop_sends:
  assumes "list_all accepted rs" "uint nbytes + sent rs < uint sz" "replies w = rs @- rest"
  shows "\<exists>w'. write_loop s sz nbytes w = write_loop s sz (nbytes + word_of_int (sent rs)) w'
     \<and> replies w' = rest \<and> length (trace w') = length (trace w) + length rs"
  using assms
proof (induction rs arbitrary: nbytes w)
  case Nil
  then show ?case by (intro exI [of _ w]) (simp add: sent_def)
next
  case (Cons r rs)
  from Cons.prems have all: "list_all accepted rs" and "accepted r"
    by simp_all
  then have r: "0 \<le> ret r"
    by (simp add: accepted_def)
  have snt: "sent (r # rs) = ret r + sent rs"
    by (simp add: sent_def)
  have nonneg: "0 \<le> sent rs"
    using all by (rule sent_nonneg)
  from Cons.prems snt nonneg r have lt: "nbytes < sz"
    by (simp add: word_less_def)
  let ?nb = "nbytes + word_of_int (ret r)"
  let ?w1 = "\<lparr>replies = rs @- rest, trace = trace w @ [C_send s nbytes (sz - nbytes)],
        errno = err r\<rparr>"
  have step: "write_loop s sz nbytes w = write_loop s sz ?nb ?w1"
    using write_loop_send [of nbytes sz w s] lt r Cons.prems(3) by simp
  have adv: "uint ?nb = uint nbytes + ret r"
    using r Cons.prems snt nonneg by (intro uint_advance [where b = sz]) simp_all
  then have "uint ?nb + sent rs < uint sz"
    using Cons.prems snt by simp
  from Cons.IH [OF all this, of ?w1] obtain w' where
    w': "write_loop s sz ?nb ?w1 = write_loop s sz (?nb + word_of_int (sent rs)) w'"
      "replies w' = rest" "length (trace w') = length (trace ?w1) + length rs"
    by auto
  have "?nb + word_of_int (sent rs) = nbytes + word_of_int (sent (r # rs))"
    by (simp add: snt)
  with step w' show ?case by auto
qed

lemma deadlines_negative:
  "timeout d < 0 \<Longrightarrow> deadlines d tv ss = replicate (length ss) None"
  by (induction ss arbitrary: tv) (simp_all add: handed_def)

lemma deadlines_untouched:
  "list_all (\<lambda>s. out_tv s = None) ss \<Longrightarrow>
     deadlines d tv ss = replicate (length ss) (handed d tv) \<and> foldl (tv_next d) tv ss = tv"
  by (induction ss arbitrary: tv) (simp_all add: tv_next_def)

lemma read_after_rounds:
  assumes "list_all ready rs" "received rs \<le> uint sz" "replies w = round_replies rs @- rest"
  shows "\<exists>w1 es. irda_socket_read (Some d) sz w =
         read_loop d sz (foldl (tv_next d) (tv_init d) (map fst rs)) (word_of_int (received rs)) w1
     \<and> uint (word_of_int (received rs) :: u32) = received rs
     \<and> replies w1 = rest \<and> trace w1 = trace w @ es
     \<and> selects es = map (Pair (fd d + 1)) (deadlines d (tv_init d) (map fst rs))"
proof -
  have nonneg: "0 \<le> received rs"
    using assms(1) by (rule received_nonneg)
  have "uint (word_of_int (received rs) :: u32) = received rs"
    using nonneg assms(2) by (rule uint_count)
  with read_loop_rounds [of rs 0 sz w rest d "tv_init d"] assms show ?thesis
    by (auto simp: irda_socket_read_def)
qed


subsection \<open>Absent handles\<close>

text \<open>
  Claim C5. Every operation that takes a handle returns \<open>-1\<close> at once when the handle is
  null, and \<open>irda_socket_open\<close> does so when its output slot is null: the world comes back
  as it was, so no call reached the operating system (the trace and the pending answers
  are untouched) and nothing was stored.
\<close>

theorem null_handle_invalid_argument:
  "irda_socket_close None w = (-1, w)
   \<and> irda_socket_set_timeout None t = (-1, None)
   \<and> irda_socket_discover p None callback userdata w = (-1, w)
   \<and> irda_socket_connect_name p None address name w = (-1, w)
   \<and> irda_socket_connect_lsap p None address lsap w = (-1, w)
   \<and> irda_socket_available p None w = (-1, w)
   \<and> irda_socket_read None sz w = Some (-1, w)
   \<and> irda_socket_write None sz w = Some (-1, w)
   \<and> irda_socket_open p False w = (-1, None, w)"
  by (simp add: irda_socket_close_def irda_socket_set_timeout_def irda_socket_discover_def
      irda_socket_connect_name_def irda_socket_connect_lsap_def irda_socket_available_def
      irda_socket_read_def irda_socket_write_def irda_socket_open_def)

subsection \<open>Closing\<close>

text \<open>
  Claim C6. On a valid handle \<open>irda_socket_close\<close> issues \<open>shutdown\<close>, then \<open>close\<close>, then
  \<open>free\<close>, whatever the first two answer. The value returned is \<open>-1\<close> when \<open>close\<close>
  answers non-zero and \<open>0\<close> otherwise; the answer of \<open>shutdown\<close> has no influence.
\<close>

theorem close_always_frees:
  assumes "replies w = sh ## cl ## rest"
  shows "irda_socket_close (Some d) w =
     (if ret cl \<noteq> 0 then -1 else 0,
      \<lparr>replies = rest,
       trace = trace w @ [C_shutdown (fd d) 0, C_close (fd d), C_free],
       errno = err cl\<rparr>)"
  using assms by (simp add: irda_socket_close_def os_def emit_def)

text \<open>A run in which \<open>shutdown\<close> fails and \<open>close\<close> succeeds.\<close>

theorem close_always_frees_witness:
  "replies (boot (reply (-1) 107 ## reply 0 0 ## sconst (reply 0 0)))
     = reply (-1) 107 ## reply 0 0 ## sconst (reply 0 0)
   \<and> irda_socket_close (Some \<lparr>fd = 3, timeout = -1\<rparr>)
       (boot (reply (-1) 107 ## reply 0 0 ## sconst (reply 0 0))) =
     (0, \<lparr>replies = sconst (reply 0 0),
          trace = [C_shutdown 3 0, C_close 3, C_free], errno = 0\<rparr>)"
  using close_always_frees [of "boot (reply (-1) 107 ## reply 0 0 ## sconst (reply 0 0))"
      "reply (-1) 107" "reply 0 0" "sconst (reply 0 0)" "\<lparr>fd = 3, timeout = -1\<rparr>"]
  by (simp add: boot_def reply_def)

subsection \<open>Empty transfers\<close>

text \<open>
  Claim C10. With a size of zero on a valid handle, \<open>irda_socket_read\<close> and
  \<open>irda_socket_write\<close> return 0 and leave the world as it was: neither \<open>select\<close> nor
  \<open>recv\<close> nor \<open>send\<close> is called.
\<close>

theorem zero_size_io:
  "irda_socket_read (Some d) 0 w = Some (0, w) \<and> irda_socket_write (Some d) 0 w = Some (0, w)"
proof
  show "irda_socket_read (Some d) 0 w = Some (0, w)"
    unfolding irda_socket_read_def by (subst read_loop.simps) (simp add: to_int_def)
  show "irda_socket_write (Some d) 0 w = Some (0, w)"
    unfolding irda_socket_write_def by (subst write_loop.simps) (simp add: to_int_def)
qed

subsection \<open>Bytes and words\<close>

text \<open>
  \<open>be32\<close> adds four shifted bytes; since their bits do not overlap the sum is the
  bitwise or, and \<open>split32\<close> is its inverse.
\<close>

lemma low_byte:
  fixes x :: u32
  shows "(ucast (ucast (x AND 0xFF) :: u8) :: u32) = take_bit 8 x"
proof -
  have m: "(0xFF :: u32) = mask 8" by (simp add: mask_eq_exp_minus_1)
  show ?thesis
    unfolding m by (intro bit_word_eqI) (auto simp: bit_simps)
qed

lemma be32_or:
  "be32 (b0, b1, b2, b3) =
     push_bit 24 (ucast b0) OR push_bit 16 (ucast b1) OR push_bit 8 (ucast b2) OR ucast b3"
proof -
  have 1: "(push_bit 24 (ucast b0) + push_bit 16 (ucast b1) :: u32)
      = push_bit 24 (ucast b0) OR push_bit 16 (ucast b1)"
    by (rule disjunctive_add) (auto simp: bit_simps dest: bit_imp_le_length)
  have 2: "((push_bit 24 (ucast b0) OR push_bit 16 (ucast b1)) + push_bit 8 (ucast b2) :: u32)
      = (push_bit 24 (ucast b0) OR push_bit 16 (ucast b1)) OR push_bit 8 (ucast b2)"
    by (rule disjunctive_add) (auto simp: bit_simps dest: bit_imp_le_length)
  have 3: "(((push_bit 24 (ucast b0) OR push_bit 16 (ucast b1)) OR push_bit 8 (ucast b2)) + ucast b3 :: u32)
      = ((push_bit 24 (ucast b0) OR push_bit 16 (ucast b1)) OR push_bit 8 (ucast b2)) OR ucast b3"
    by (rule disjunctive_add) (auto simp: bit_simps dest: bit_imp_le_length)
  show ?thesis
    unfolding be32_def prod.case 1 2 3 by (simp add: ac_simps)
qed

lemma be32_split32: "be32 (split32 a) = a"
proof (rule bit_word_eqI)
  fix n assume n: "n < LENGTH(32)"
  have eq: "be32 (split32 a) = push_bit 24 (take_bit 8 (drop_bit 24 a))
      OR push_bit 16 (take_bit 8 (drop_bit 16 a))
      OR push_bit 8 (take_bit 8 (drop_bit 8 a)) OR take_bit 8 a"
    unfolding split32_def be32_or low_byte ..
  consider "n < 8" | "8 \<le> n" "n < 16" | "16 \<le> n" "n < 24" | "24 \<le> n" "n < 32"
    using n by fastforce
  then show "bit (be32 (split32 a)) n = bit a n"
  proof cases
    case 1 then show ?thesis unfolding eq by (auto simp: bit_simps)
  next
    case 2 then show ?thesis unfolding eq by (auto simp: bit_simps)
  next
    case 3 then show ?thesis unfolding eq by (auto simp: bit_simps)
  next
    case 4 then show ?thesis unfolding eq by (auto simp: bit_simps)
  qed
qed

lemma load_store_u32: "load_u32 bo (store_u32 bo a) = a"
proof -
  obtain b0 b1 b2 b3 where s: "split32 a = (b0, b1, b2, b3)"
    by (cases "split32 a") auto
  have "be32 (b0, b1, b2, b3) = a"
    using be32_split32 [of a] s by simp
  then show ?thesis
    by (cases bo) (simp_all add: load_u32_def store_u32_def s)
qed


lemma selector_low_byte:
  fixes lsap :: u32
  shows "unat (ucast lsap :: u8) = unat lsap mod 256"
  by (simp add: unsigned_ucast_eq take_bit_eq_mod)

lemma shift_add_is_or:
  fixes a b :: u8
  shows "(push_bit 8 (ucast a) + ucast b :: u32) = push_bit 8 (ucast a) OR ucast b"
  by (rule disjunctive_add) (auto simp: bit_simps dest: bit_imp_le_length)

lemma discover_after_retries:
  assumes "list_all (blocks p) rs" "length rs \<le> DISCOVER_MAX_RETRIES" "replies w = rs @- rest"
  shows "discover_loop p s 0 w = discover_loop p s (length rs)
     \<lparr>replies = rest,
      trace = trace w @ concat (replicate (length rs) [C_getsockopt s DISCOVER_MAX_DEVICES, nap p]),
      errno = (if rs = [] then errno w else would_block p)\<rparr>"
  using discover_loop_retries [of p rs 0 w rest s] assms by simp

subsection \<open>Strings\<close>

lemma digit_not_NUL: "d < 10 \<Longrightarrow> digit d \<noteq> NUL"
proof -
  assume "d < 10"
  then have "''0123456789'' ! d \<in> set ''0123456789''"
    by (intro nth_mem) simp
  moreover have "NUL \<notin> set ''0123456789''"
    by (simp add: NUL_def)
  ultimately show ?thesis
    unfolding digit_def by metis
qed

lemma decimal_no_NUL: "NUL \<notin> set (decimal n)"
proof (induction n rule: decimal.induct)
  case (1 n)
  show ?case
  proof (cases "n < 10")
    case True
    then show ?thesis using digit_not_NUL [of n] by (subst decimal.simps) auto
  next
    case False
    moreover have "digit (n mod 10) \<noteq> NUL" by (rule digit_not_NUL) simp
    ultimately show ?thesis
      using "1.IH" by (subst decimal.simps) auto
  qed
qed

lemma length_decimal: "0 < k \<Longrightarrow> n < 10 ^ k \<Longrightarrow> length (decimal n) \<le> k"
proof (induction n arbitrary: k rule: decimal.induct)
  case (1 n)
  show ?case
  proof (cases "n < 10")
    case True
    with "1.prems" show ?thesis by (subst decimal.simps) simp
  next
    case False
    from "1.prems" obtain j where j: "k = Suc j"
      by (cases k) auto
    have "0 < j"
    proof (rule ccontr)
      assume "\<not> 0 < j"
      with j "1.prems" have "n < 10" by simp
      with False show False ..
    qed
    with j have k: "k = Suc j" "0 < j" by simp_all
    with "1.prems" have "n div 10 < 10 ^ j"
      by (simp add: less_mult_imp_div_less mult.commute)
    with "1.IH" [OF False \<open>0 < j\<close>] have "length (decimal (n div 10)) \<le> j" .
    with False k show ?thesis by (subst decimal.simps) simp
  qed
qed

lemma length_decimal_u32: "length (decimal (unat (x :: u32))) \<le> 10"
proof -
  have "unat x < 2 ^ 32" using unsigned_less [of x] by simp
  then have "unat x < 10 ^ 10" by simp
  then show ?thesis by (intro length_decimal) simp_all
qed

lemma c_str_padded:
  assumes "NUL \<notin> set s"
  shows "c_str (s @ replicate m NUL) = s"
proof -
  have "takeWhile (\<lambda>c. c \<noteq> NUL) (s @ replicate m NUL) = s @ takeWhile (\<lambda>c. c \<noteq> NUL) (replicate m NUL)"
    using assms by (intro takeWhile_append2) auto
  then show ?thesis by (simp add: c_str_def)
qed

lemma lsap_name:
  fixes lsap :: u32
  shows "length (snprintf 25 (''LSAP-SEL'' @ decimal (unat lsap))) = 25"
    and "c_str (snprintf 25 (''LSAP-SEL'' @ decimal (unat lsap))) = ''LSAP-SEL'' @ decimal (unat lsap)"
proof -
  let ?s = "''LSAP-SEL'' @ decimal (unat lsap)"
  have len: "length ?s \<le> 18" using length_decimal_u32 [of lsap] by simp
  then have tk: "take (25 - 1) ?s = ?s" by simp
  have nn: "NUL \<notin> set ?s" using decimal_no_NUL [of "unat lsap"] by (simp add: NUL_def)
  show "length (snprintf 25 ?s) = 25"
    unfolding snprintf_def tk using len by simp
  show "c_str (snprintf 25 ?s) = ?s"
    unfolding snprintf_def tk using nn by (rule c_str_padded)
qed

subsection \<open>Discovery: the retry policy\<close>

text \<open>
  Claim C3. Suppose the enumeration query has been answered "would block" \<open>length rs\<close>
  times, at most \<open>DISCOVER_MAX_RETRIES = 4\<close> times; each of these answers was followed
  by a wait of one second and a new query. The next answer \<open>r\<close> decides:
  if it is "would block" again and the four retries are used up,
  \<open>irda_socket_discover\<close> returns 0 after that fifth query, without a further wait and
  without any callback; if it is a failure with another error code, \<open>irda_socket_discover\<close>
  returns \<open>-1\<close> at once.
\<close>

theorem discover_retry_policy:
  assumes "list_all (blocks p) rs" and "length rs \<le> DISCOVER_MAX_RETRIES"
    and "replies w = rs @- r ## rest"
  shows "(blocks p r \<and> length rs = DISCOVER_MAX_RETRIES \<longrightarrow>
            irda_socket_discover p (Some d) callback userdata w =
              (0, \<lparr>replies = rest,
                   trace = trace w
                     @ concat (replicate (length rs) [C_getsockopt (fd d) DISCOVER_MAX_DEVICES, nap p])
                     @ [C_getsockopt (fd d) DISCOVER_MAX_DEVICES],
                   errno = would_block p\<rparr>))
       \<and> (ret r \<noteq> 0 \<and> err r \<noteq> would_block p \<longrightarrow>
            irda_socket_discover p (Some d) callback userdata w =
              (-1, \<lparr>replies = rest,
                   trace = trace w
                     @ concat (replicate (length rs) [C_getsockopt (fd d) DISCOVER_MAX_DEVICES, nap p])
                     @ [C_getsockopt (fd d) DISCOVER_MAX_DEVICES],
                   errno = err r\<rparr>))
       \<and> duration_ms (nap p) = 1000 \<and> DISCOVER_MAX_RETRIES = 4"
proof -
  let ?G = "C_getsockopt (fd d) DISCOVER_MAX_DEVICES"
  let ?w1 = "\<lparr>replies = r ## rest,
      trace = trace w @ concat (replicate (length rs) [?G, nap p]),
      errno = (if rs = [] then errno w else would_block p)\<rparr>"
  have loop: "discover_loop p (fd d) 0 w = discover_loop p (fd d) (length rs) ?w1"
    using assms by (rule discover_after_retries)
  have a: "irda_socket_discover p (Some d) callback userdata w =
      (0, \<lparr>replies = rest, trace = trace w @ concat (replicate (length rs) [?G, nap p]) @ [?G],
           errno = would_block p\<rparr>)"
    if "blocks p r" "length rs = DISCOVER_MAX_RETRIES"
    using that discover_loop_exhausted [of ?w1 p "length rs" "fd d"]
    by (simp add: irda_socket_discover_def loop blocks_def)
  have b: "irda_socket_discover p (Some d) callback userdata w =
      (-1, \<lparr>replies = rest, trace = trace w @ concat (replicate (length rs) [?G, nap p]) @ [?G],
           errno = err r\<rparr>)"
    if "ret r \<noteq> 0" "err r \<noteq> would_block p"
    using that discover_loop_fail [of ?w1 p "fd d" "length rs"]
    by (simp add: irda_socket_discover_def loop)
  have c: "duration_ms (nap p) = 1000"
    by (cases p) (simp_all add: duration_ms_def nap_def)
  from a b c show ?thesis
    by (simp add: DISCOVER_MAX_RETRIES_def)
qed

text \<open>
  Five "would block" answers on Windows; one "would block" and then \<open>EACCES\<close> on POSIX.
\<close>

theorem discover_retry_policy_witness:
  "list_all (blocks WIN32) [reply (-1) 10035, reply (-1) 10035, reply (-1) 10035, reply (-1) 10035]
   \<and> blocks WIN32 (reply (-1) 10035)
   \<and> irda_socket_discover WIN32 (Some \<lparr>fd = 3, timeout = -1\<rparr>) True 7
        (boot ([reply (-1) 10035, reply (-1) 10035, reply (-1) 10035, reply (-1) 10035]
               @- reply (-1) 10035 ## sconst (reply 0 0))) =
       (0, \<lparr>replies = sconst (reply 0 0),
            trace = [C_getsockopt 3 16, C_Sleep 1000, C_getsockopt 3 16, C_Sleep 1000,
                     C_getsockopt 3 16, C_Sleep 1000, C_getsockopt 3 16, C_Sleep 1000,
                     C_getsockopt 3 16],
            errno = 10035\<rparr>)
   \<and> list_all (blocks (POSIX LittleEndian)) [reply (-1) 11]
   \<and> ret (reply (-1) 13) \<noteq> 0 \<and> err (reply (-1) 13) \<noteq> would_block (POSIX LittleEndian)
   \<and> irda_socket_discover (POSIX LittleEndian) (Some \<lparr>fd = 3, timeout = -1\<rparr>) True 7
        (boot ([reply (-1) 11] @- reply (-1) 13 ## sconst (reply 0 0))) =
       (-1, \<lparr>replies = sconst (reply 0 0),
             trace = [C_getsockopt 3 16, C_sleep 1, C_getsockopt 3 16],
             errno = 13\<rparr>)"
proof -
  let ?b = "reply (-1) 10035"
  let ?d = "\<lparr>fd = 3, timeout = -1\<rparr>"
  let ?idle = "sconst (reply 0 0)"
  have b: "blocks WIN32 ?b"
    by (simp add: blocks_def reply_def would_block_def)
  have 1: "list_all (blocks WIN32) [?b, ?b, ?b, ?b]"
    using b by simp
  have 2: "length [?b, ?b, ?b, ?b] \<le> DISCOVER_MAX_RETRIES"
    by (simp add: DISCOVER_MAX_RETRIES_def)
  have 3: "replies (boot ([?b, ?b, ?b, ?b] @- ?b ## ?idle)) = [?b, ?b, ?b, ?b] @- ?b ## ?idle"
    by (simp add: boot_def)
  have 4: "length [?b, ?b, ?b, ?b] = DISCOVER_MAX_RETRIES"
    by (simp add: DISCOVER_MAX_RETRIES_def)
  from discover_retry_policy [OF 1 2 3, of ?d True 7] b 4
  have first: "irda_socket_discover WIN32 (Some ?d) True 7 (boot ([?b, ?b, ?b, ?b] @- ?b ## ?idle)) =
       (0, \<lparr>replies = ?idle,
            trace = trace (boot ([?b, ?b, ?b, ?b] @- ?b ## ?idle))
                     @ concat (replicate (length [?b, ?b, ?b, ?b]) [C_getsockopt (fd ?d) DISCOVER_MAX_DEVICES, nap WIN32])
                     @ [C_getsockopt (fd ?d) DISCOVER_MAX_DEVICES],
            errno = would_block WIN32\<rparr>)"
    by blast
  let ?e = "reply (-1) 11"
  let ?f = "reply (-1) 13"
  have e: "list_all (blocks (POSIX LittleEndian)) [?e]"
    by (simp add: blocks_def reply_def would_block_def)
  have f: "ret ?f \<noteq> 0 \<and> err ?f \<noteq> would_block (POSIX LittleEndian)"
    by (simp add: reply_def would_block_def)
  have 5: "length [?e] \<le> DISCOVER_MAX_RETRIES"
    by (simp add: DISCOVER_MAX_RETRIES_def)
  have 6: "replies (boot ([?e] @- ?f ## ?idle)) = [?e] @- ?f ## ?idle"
    by (simp add: boot_def)
  from discover_retry_policy [OF e 5 6, of ?d True 7] f
  have second: "irda_socket_discover (POSIX LittleEndian) (Some ?d) True 7 (boot ([?e] @- ?f ## ?idle)) =
       (-1, \<lparr>replies = ?idle,
            trace = trace (boot ([?e] @- ?f ## ?idle))
                     @ concat (replicate (length [?e]) [C_getsockopt (fd ?d) DISCOVER_MAX_DEVICES, nap (POSIX LittleEndian)])
                     @ [C_getsockopt (fd ?d) DISCOVER_MAX_DEVICES],
            errno = err ?f\<rparr>)"
    by blast
  have t1: "trace (boot ([?b, ?b, ?b, ?b] @- ?b ## ?idle))
                     @ concat (replicate (length [?b, ?b, ?b, ?b]) [C_getsockopt (fd ?d) DISCOVER_MAX_DEVICES, nap WIN32])
                     @ [C_getsockopt (fd ?d) DISCOVER_MAX_DEVICES]
     = [C_getsockopt 3 16, C_Sleep 1000, C_getsockopt 3 16, C_Sleep 1000,
                     C_getsockopt 3 16, C_Sleep 1000, C_getsockopt 3 16, C_Sleep 1000,
                     C_getsockopt 3 16]"
    by (simp add: boot_def nap_def DISCOVER_MAX_DEVICES_def)
  have t2: "trace (boot ([?e] @- ?f ## ?idle))
                     @ concat (replicate (length [?e]) [C_getsockopt (fd ?d) DISCOVER_MAX_DEVICES, nap (POSIX LittleEndian)])
                     @ [C_getsockopt (fd ?d) DISCOVER_MAX_DEVICES]
     = [C_getsockopt 3 16, C_sleep 1, C_getsockopt 3 16]"
    by (simp add: boot_def nap_def DISCOVER_MAX_DEVICES_def)
  have e1: "would_block WIN32 = 10035" and e2: "err ?f = 13"
    by (simp_all add: would_block_def reply_def)
  show ?thesis
    unfolding first second t1 t2 e1 using b 1 e f by (simp add: e2)
qed

subsection \<open>Discovery: the callback\<close>

text \<open>
  Claim C4, as amended. When the query succeeds (after at most four "would block"
  answers) and a callback is given, the callback is invoked once per entry of the list
  the operating system returned, in the order of the list, after the last query. The
  hints are \<open>byte0 << 8 | byte1\<close> on both platforms. On Windows the address is the
  big-endian value of the four bytes of \<open>irdaDeviceID\<close>. On POSIX the address is the
  \<open>daddr\<close> field as the kernel stored it, a 32-bit integer read in the byte order of the
  host: the big-endian value of its four bytes on a big-endian host, the little-endian
  value on a little-endian host.
\<close>

theorem discover_reports_entries:
  assumes "list_all (blocks p) rs" and "length rs \<le> DISCOVER_MAX_RETRIES"
    and "replies w = rs @- r ## rest" and "ret r = 0"
  shows "irda_socket_discover p (Some d) True userdata w =
     (0, \<lparr>replies = rest,
          trace = trace w
            @ concat (replicate (length rs) [C_getsockopt (fd d) DISCOVER_MAX_DEVICES, nap p])
            @ [C_getsockopt (fd d) DISCOVER_MAX_DEVICES]
            @ (case p of
                 WIN32 \<Rightarrow>
                   map (\<lambda>e. Callback (be32 (irdaDeviceID e)) (irdaDeviceName e) (ucast (irdaCharSet e))
                              (push_bit 8 (ucast (irdaDeviceHints1 e)) OR ucast (irdaDeviceHints2 e))
                              userdata)
                     (out_DEVICELIST r)
               | POSIX bo \<Rightarrow>
                   map (\<lambda>e. Callback (load_u32 bo (daddr e)) (info e) (ucast (charset e))
                              (push_bit 8 (ucast (fst (hints e))) OR ucast (snd (hints e)))
                              userdata)
                     (out_list r)),
          errno = err r\<rparr>)
     \<and> load_u32 BigEndian (b0, b1, b2, b3) = be32 (b0, b1, b2, b3)
     \<and> load_u32 LittleEndian (b0, b1, b2, b3) = be32 (b3, b2, b1, b0)"
proof -
  let ?G = "C_getsockopt (fd d) DISCOVER_MAX_DEVICES"
  let ?w1 = "\<lparr>replies = r ## rest,
      trace = trace w @ concat (replicate (length rs) [?G, nap p]),
      errno = (if rs = [] then errno w else would_block p)\<rparr>"
  have loop: "discover_loop p (fd d) 0 w = discover_loop p (fd d) (length rs) ?w1"
    using assms(1-3) by (rule discover_after_retries)
  let ?w2 = "\<lparr>replies = rest,
      trace = trace w @ concat (replicate (length rs) [?G, nap p]) @ [?G],
      errno = err r\<rparr>"
  have ok: "discover_loop p (fd d) (length rs) ?w1 = (Inr r, ?w2)"
    using discover_loop_ok [of ?w1 p "fd d" "length rs"] assms(4) by simp
  have win: "win32_callback userdata = (\<lambda>e. Callback (be32 (irdaDeviceID e)) (irdaDeviceName e)
      (ucast (irdaCharSet e))
      (push_bit 8 (ucast (irdaDeviceHints1 e)) OR ucast (irdaDeviceHints2 e)) userdata)"
    by (rule ext) (simp add: win32_callback_def shift_add_is_or)
  have posix: "posix_callback bo userdata = (\<lambda>e. Callback (load_u32 bo (daddr e)) (info e)
      (ucast (charset e))
      (push_bit 8 (ucast (fst (hints e))) OR ucast (snd (hints e))) userdata)" for bo
    by (rule ext) (simp add: posix_callback_def shift_add_is_or)
  have "irda_socket_discover p (Some d) True userdata w =
      (0, case p of
            WIN32 \<Rightarrow> report (win32_callback userdata) (out_DEVICELIST r) ?w2
          | POSIX bo \<Rightarrow> report (posix_callback bo userdata) (out_list r) ?w2)"
    by (simp add: irda_socket_discover_def loop ok)
  then show ?thesis
    by (simp add: report_eq win posix load_u32_def split: platform.split)
qed

text \<open>Windows, one "would block" answer, then a list of two devices.\<close>

theorem discover_reports_entries_witness:
  "list_all (blocks WIN32) [reply (-1) 10035]
   \<and> irda_socket_discover WIN32 (Some \<lparr>fd = 3, timeout = -1\<rparr>) True 7
        (boot ([reply (-1) 10035] @-
           (reply 0 0)\<lparr>out_DEVICELIST :=
              [\<lparr>irdaDeviceID = (0x12, 0x34, 0x56, 0x78), irdaDeviceName = ''Aladin'',
                irdaDeviceHints1 = 0x82, irdaDeviceHints2 = 0x04, irdaCharSet = 0\<rparr>,
               \<lparr>irdaDeviceID = (0, 0, 1, 2), irdaDeviceName = ''Smart'',
                irdaDeviceHints1 = 0x01, irdaDeviceHints2 = 0xFF, irdaCharSet = 1\<rparr>]\<rparr>
           ## sconst (reply 0 0))) =
       (0, \<lparr>replies = sconst (reply 0 0),
            trace = [C_getsockopt 3 16, C_Sleep 1000, C_getsockopt 3 16,
                     Callback 0x12345678 ''Aladin'' 0 0x8204 7,
                     Callback 0x00000102 ''Smart'' 1 0x01FF 7],
            errno = 0\<rparr>)"
  using discover_reports_entries [of WIN32 "[reply (-1) 10035]"
      "boot ([reply (-1) 10035] @-
           (reply 0 0)\<lparr>out_DEVICELIST :=
              [\<lparr>irdaDeviceID = (0x12, 0x34, 0x56, 0x78), irdaDeviceName = ''Aladin'',
                irdaDeviceHints1 = 0x82, irdaDeviceHints2 = 0x04, irdaCharSet = 0\<rparr>,
               \<lparr>irdaDeviceID = (0, 0, 1, 2), irdaDeviceName = ''Smart'',
                irdaDeviceHints1 = 0x01, irdaDeviceHints2 = 0xFF, irdaCharSet = 1\<rparr>]\<rparr>
           ## sconst (reply 0 0))"
      "(reply 0 0)\<lparr>out_DEVICELIST :=
              [\<lparr>irdaDeviceID = (0x12, 0x34, 0x56, 0x78), irdaDeviceName = ''Aladin'',
                irdaDeviceHints1 = 0x82, irdaDeviceHints2 = 0x04, irdaCharSet = 0\<rparr>,
               \<lparr>irdaDeviceID = (0, 0, 1, 2), irdaDeviceName = ''Smart'',
                irdaDeviceHints1 = 0x01, irdaDeviceHints2 = 0xFF, irdaCharSet = 1\<rparr>]\<rparr>"
      "sconst (reply 0 0)" "\<lparr>fd = 3, timeout = -1\<rparr>" 7]
  by (simp add: boot_def reply_def blocks_def would_block_def nap_def be32_def
      DISCOVER_MAX_RETRIES_def DISCOVER_MAX_DEVICES_def)

text \<open>
  Claim C4 as stated fails on POSIX on a little-endian host: the four bytes
  \<open>12 34 56 78\<close> of \<open>daddr\<close> reach the callback as \<open>0x78563412\<close>, while their big-endian
  value is \<open>0x12345678\<close>.
\<close>

theorem posix_address_not_big_endian:
  "irda_socket_discover (POSIX LittleEndian) (Some \<lparr>fd = 3, timeout = -1\<rparr>) True 7
     (boot ((reply 0 0)\<lparr>out_list :=
              [\<lparr>daddr = (0x12, 0x34, 0x56, 0x78), info = ''Aladin'', charset = 0,
                hints = (0x82, 0x04)\<rparr>]\<rparr>
            ## sconst (reply 0 0))) =
     (0, \<lparr>replies = sconst (reply 0 0),
          trace = [C_getsockopt 3 16, Callback 0x78563412 ''Aladin'' 0 0x8204 7],
          errno = 0\<rparr>)
   \<and> be32 (0x12, 0x34, 0x56, 0x78) = 0x12345678
   \<and> (0x78563412 :: u32) \<noteq> 0x12345678"
  by (simp add: irda_socket_discover_def discover_loop_ok boot_def reply_def report_eq
      posix_callback_def load_u32_def be32_def DISCOVER_MAX_DEVICES_def)

subsection \<open>Reading\<close>

text \<open>
  Claim C1, as amended. On a valid handle, suppose the first rounds of
  \<open>irda_socket_read\<close> go through (\<open>select\<close> reports the socket readable, \<open>recv\<close>
  delivers at least one byte) and deliver \<open>received rs\<close> bytes in all, never more than
  was asked for. Then what comes next decides, whichever comes first:
  \<^item> the bytes delivered reach \<open>size\<close>: the count is returned and no further call is made;
  \<^item> \<open>select\<close> answers 0 (timeout): the count is returned, also when it is zero;
  \<^item> \<open>recv\<close> answers 0 (end of stream): the count is returned;
  \<^item> \<open>select\<close> or \<open>recv\<close> answers a negative value: \<open>-1\<close> is returned and the count
    is dropped.

  The count is returned through an \<open>int\<close>: it is the number of bytes as long as this is
  at most \<open>INT_MAX\<close>.
\<close>

theorem read_outcomes:
  assumes "list_all ready rs" and "received rs \<le> uint sz"
    and "replies w = round_replies rs @- rest"
  shows "(received rs = uint sz \<longrightarrow>
           (\<exists>w'. irda_socket_read (Some d) sz w = Some (to_int (word_of_int (received rs)), w')
              \<and> replies w' = rest))
       \<and> (received rs < uint sz \<and> ret (shd rest) = 0 \<longrightarrow>
           (\<exists>w'. irda_socket_read (Some d) sz w = Some (to_int (word_of_int (received rs)), w')
              \<and> replies w' = stl rest))
       \<and> (received rs < uint sz \<and> 0 < ret (shd rest) \<and> ret (shd (stl rest)) = 0 \<longrightarrow>
           (\<exists>w'. irda_socket_read (Some d) sz w = Some (to_int (word_of_int (received rs)), w')
              \<and> replies w' = stl (stl rest)))
       \<and> (received rs < uint sz \<and> ret (shd rest) < 0 \<longrightarrow>
           (\<exists>w'. irda_socket_read (Some d) sz w = Some (-1, w') \<and> replies w' = stl rest))
       \<and> (received rs < uint sz \<and> 0 < ret (shd rest) \<and> ret (shd (stl rest)) < 0 \<longrightarrow>
           (\<exists>w'. irda_socket_read (Some d) sz w = Some (-1, w') \<and> replies w' = stl (stl rest)))
       \<and> (received rs \<le> INT_MAX \<longrightarrow> to_int (word_of_int (received rs)) = received rs)"
proof -
  let ?nb = "word_of_int (received rs) :: u32"
  let ?tv = "foldl (tv_next d) (tv_init d) (map fst rs)"
  have nonneg: "0 \<le> received rs"
    using assms(1) by (rule received_nonneg)
  from read_after_rounds [OF assms, of d] obtain w1 where
    rd: "irda_socket_read (Some d) sz w = read_loop d sz ?tv ?nb w1"
    and nb: "uint ?nb = received rs" and w1: "replies w1 = rest"
    by auto
  have full: "\<exists>w'. irda_socket_read (Some d) sz w = Some (to_int ?nb, w') \<and> replies w' = rest"
    if "received rs = uint sz"
  proof -
    from that nb have "\<not> ?nb < sz" by (simp add: word_less_def)
    then show ?thesis using w1 by (simp add: rd read_loop_full)
  qed
  have more: "?nb < sz" if "received rs < uint sz"
    using that nb by (simp add: word_less_def)
  have tmo: "\<exists>w'. irda_socket_read (Some d) sz w = Some (to_int ?nb, w') \<and> replies w' = stl rest"
    if "received rs < uint sz" "ret (shd rest) = 0"
    using read_loop_timeout [of ?nb sz w1 d ?tv] more that w1 by (simp add: rd)
  have eof: "\<exists>w'. irda_socket_read (Some d) sz w = Some (to_int ?nb, w') \<and> replies w' = stl (stl rest)"
    if "received rs < uint sz" "0 < ret (shd rest)" "ret (shd (stl rest)) = 0"
    using read_loop_eof [of ?nb sz w1 d ?tv] more that w1 by (simp add: rd)
  have sel: "\<exists>w'. irda_socket_read (Some d) sz w = Some (-1, w') \<and> replies w' = stl rest"
    if "received rs < uint sz" "ret (shd rest) < 0"
    using read_loop_select_error [of ?nb sz w1 d ?tv] more that w1 by (simp add: rd)
  have rcv: "\<exists>w'. irda_socket_read (Some d) sz w = Some (-1, w') \<and> replies w' = stl (stl rest)"
    if "received rs < uint sz" "0 < ret (shd rest)" "ret (shd (stl rest)) < 0"
    using read_loop_recv_error [of ?nb sz w1 d ?tv] more that w1 by (simp add: rd)
  have cnt: "to_int ?nb = received rs" if "received rs \<le> INT_MAX"
    using nonneg that by (rule to_int_count)
  from full tmo eof sel rcv cnt show ?thesis by blast
qed

text \<open>
  A read of 10 bytes that gets 4 and then times out; one that gets 4 and then fails in
  \<open>recv\<close>; a read of 4 bytes that gets them all.
\<close>

theorem read_outcomes_witness:
  "list_all ready [(reply 1 0, reply 4 0)]
   \<and> received [(reply 1 0, reply 4 0)] = 4
   \<and> map_option fst (irda_socket_read (Some \<lparr>fd = 3, timeout = 1500\<rparr>) 10
        (boot (round_replies [(reply 1 0, reply 4 0)] @- reply 0 0 ## sconst (reply 0 0)))) = Some 4
   \<and> map_option fst (irda_socket_read (Some \<lparr>fd = 3, timeout = 1500\<rparr>) 10
        (boot (round_replies [(reply 1 0, reply 4 0)] @- reply 1 0 ## reply (-1) 104 ## sconst (reply 0 0)))) = Some (-1)
   \<and> map_option fst (irda_socket_read (Some \<lparr>fd = 3, timeout = 1500\<rparr>) 4
        (boot (round_replies [(reply 1 0, reply 4 0)] @- sconst (reply 0 0)))) = Some 4"
proof -
  let ?rs = "[(reply 1 0, reply 4 0)]"
  let ?d = "\<lparr>fd = 3, timeout = 1500\<rparr>"
  let ?idle = "sconst (reply 0 0)"
  have 1: "list_all ready ?rs"
    by (simp add: ready_def)
  have rec: "received ?rs = 4"
    by (simp add: received_def)
  have 2: "received ?rs \<le> uint (10 :: u32)" and h2b: "received ?rs \<le> uint (4 :: u32)"
    by (simp_all add: rec)
  have cnt: "to_int (word_of_int (received ?rs)) = 4"
    by (simp add: rec to_int_def)
  have a: "replies (boot (round_replies ?rs @- reply 0 0 ## ?idle)) = round_replies ?rs @- reply 0 0 ## ?idle"
    and b: "replies (boot (round_replies ?rs @- reply 1 0 ## reply (-1) 104 ## ?idle))
       = round_replies ?rs @- reply 1 0 ## reply (-1) 104 ## ?idle"
    and c: "replies (boot (round_replies ?rs @- ?idle)) = round_replies ?rs @- ?idle"
    by simp_all
  have "received ?rs < uint (10 :: u32) \<and> ret (shd (reply 0 0 ## ?idle)) = 0"
    by (simp add: rec)
  with read_outcomes [OF 1 2 a, of ?d]
  have ra: "map_option fst (irda_socket_read (Some ?d) 10
        (boot (round_replies ?rs @- reply 0 0 ## ?idle))) = Some 4"
    unfolding cnt by auto
  have "received ?rs < uint (10 :: u32) \<and> 0 < ret (shd (reply 1 0 ## reply (-1) 104 ## ?idle))
      \<and> ret (shd (stl (reply 1 0 ## reply (-1) 104 ## ?idle))) < 0"
    by (simp add: rec)
  with read_outcomes [OF 1 2 b, of ?d]
  have rb: "map_option fst (irda_socket_read (Some ?d) 10
        (boot (round_replies ?rs @- reply 1 0 ## reply (-1) 104 ## ?idle))) = Some (-1)"
    unfolding cnt by auto
  have "received ?rs = uint (4 :: u32)"
    by (simp add: rec)
  with read_outcomes [OF 1 h2b c, of ?d]
  have rc: "map_option fst (irda_socket_read (Some ?d) 4
        (boot (round_replies ?rs @- ?idle))) = Some 4"
    unfolding cnt by auto
  from 1 rec ra rb rc show ?thesis by simp
qed

text \<open>
  Claim C1 as stated fails for counts above \<open>INT_MAX\<close>. A read of \<open>0xFFFFFFFF\<close> bytes
  receives them all in three rounds (\<open>0x7FFFF000\<close>, \<open>0x7FFFF000\<close> and \<open>0x1FFF\<close>
  bytes); no call fails, and the value returned is \<open>-1\<close>, the value that reports an
  error.
\<close>

theorem read_count_returned_as_error_value:
  "list_all ready [(reply 1 0, reply 2147479552 0), (reply 1 0, reply 2147479552 0),
                   (reply 1 0, reply 8191 0)]
   \<and> received [(reply 1 0, reply 2147479552 0), (reply 1 0, reply 2147479552 0),
                (reply 1 0, reply 8191 0)] = 4294967295
   \<and> irda_socket_read (Some \<lparr>fd = 3, timeout = -1\<rparr>) 4294967295
       (boot (round_replies [(reply 1 0, reply 2147479552 0), (reply 1 0, reply 2147479552 0),
                             (reply 1 0, reply 8191 0)] @- sconst (reply 0 0))) =
     Some (-1, \<lparr>replies = sconst (reply 0 0),
                trace = [C_select 4 None, C_recv 3 0 4294967295,
                         C_select 4 None, C_recv 3 2147479552 2147487743,
                         C_select 4 None, C_recv 3 4294959104 8191],
                errno = 0\<rparr>)"
  by (simp add: irda_socket_read_def read_loop_round read_loop_full boot_def reply_def
      round_replies_def ready_def received_def handed_def tv_next_def tv_init_def to_int_def)

subsection \<open>Writing\<close>

text \<open>
  Claim C2, as amended. On a valid handle, suppose the first calls of \<open>send\<close> take
  \<open>sent rs\<close> bytes in all, fewer than \<open>size\<close> (a \<open>send\<close> may take nothing). If the next
  \<open>send\<close> fails, \<open>irda_socket_write\<close> returns \<open>-1\<close> and the count is dropped; if it takes
  all the bytes that remain, \<open>irda_socket_write\<close> returns after that call, with \<open>size\<close>
  converted to \<open>int\<close>, which is \<open>size\<close> itself as long as \<open>size\<close> is at most \<open>INT_MAX\<close>.
\<close>

theorem write_outcomes:
  assumes "list_all accepted rs" and "sent rs < uint sz" and "replies w = rs @- r ## rest"
  shows "(ret r < 0 \<longrightarrow>
           (\<exists>w'. irda_socket_write (Some d) sz w = Some (-1, w') \<and> replies w' = rest))
       \<and> (sent rs + ret r = uint sz \<longrightarrow>
           (\<exists>w'. irda_socket_write (Some d) sz w = Some (to_int sz, w') \<and> replies w' = rest
              \<and> length (trace w') = length (trace w) + length rs + 1))
       \<and> (uint sz \<le> INT_MAX \<longrightarrow> to_int sz = uint sz)"
proof -
  let ?nb = "word_of_int (sent rs) :: u32"
  have nonneg: "0 \<le> sent rs"
    using assms(1) by (rule sent_nonneg)
  from write_loop_sends [of rs 0 sz w "r ## rest" "fd d"] assms obtain w1 where
    run: "write_loop (fd d) sz 0 w = write_loop (fd d) sz ?nb w1"
    and w1: "replies w1 = r ## rest" "length (trace w1) = length (trace w) + length rs"
    by auto
  have nb: "uint ?nb = sent rs"
    using nonneg assms(2) by (intro uint_count [where sz = sz]) simp_all
  then have more: "?nb < sz"
    using assms(2) by (simp add: word_less_def)
  have wr: "irda_socket_write (Some d) sz w = write_loop (fd d) sz ?nb w1"
    by (simp add: irda_socket_write_def run)
  have fail: "\<exists>w'. irda_socket_write (Some d) sz w = Some (-1, w') \<and> replies w' = rest"
    if "ret r < 0"
    using write_loop_error [of ?nb sz w1 "fd d"] more that w1 by (simp add: wr)
  have complete: "\<exists>w'. irda_socket_write (Some d) sz w = Some (to_int sz, w') \<and> replies w' = rest
      \<and> length (trace w') = length (trace w) + length rs + 1"
    if "sent rs + ret r = uint sz"
  proof -
    from that assms(2) have pos: "0 \<le> ret r" by simp
    let ?w2 = "\<lparr>replies = rest, trace = trace w1 @ [C_send (fd d) ?nb (sz - ?nb)], errno = err r\<rparr>"
    have step: "write_loop (fd d) sz ?nb w1 = write_loop (fd d) sz (?nb + word_of_int (ret r)) ?w2"
      using write_loop_send [of ?nb sz w1 "fd d"] more pos w1 by simp
    have "uint (?nb + word_of_int (ret r)) = uint ?nb + ret r"
      using pos that nb by (intro uint_advance [where b = sz]) simp_all
    with nb that have "?nb + word_of_int (ret r) = sz"
      by (simp add: word_uint_eq_iff)
    with step have "write_loop (fd d) sz ?nb w1 = Some (to_int sz, ?w2)"
      by (simp add: write_loop_full)
    then show ?thesis using w1 by (simp add: wr)
  qed
  have cnt: "to_int sz = uint sz" if "uint sz \<le> INT_MAX"
    using to_int_count [of "uint sz"] that by simp
  from fail complete cnt show ?thesis by blast
qed

text \<open>
  A write of 10 bytes in three calls (6, 0 and 4 bytes); one that fails in the third call.
\<close>

theorem write_outcomes_witness:
  "list_all accepted [reply 6 0, reply 0 0]
   \<and> sent [reply 6 0, reply 0 0] = 6
   \<and> map_option fst (irda_socket_write (Some \<lparr>fd = 3, timeout = -1\<rparr>) 10
        (boot ([reply 6 0, reply 0 0] @- reply 4 0 ## sconst (reply 0 0)))) = Some 10
   \<and> map_option fst (irda_socket_write (Some \<lparr>fd = 3, timeout = -1\<rparr>) 10
        (boot ([reply 6 0, reply 0 0] @- reply (-1) 104 ## sconst (reply 0 0)))) = Some (-1)"
proof -
  let ?rs = "[reply 6 0, reply 0 0]"
  let ?d = "\<lparr>fd = 3, timeout = -1\<rparr>"
  let ?idle = "sconst (reply 0 0)"
  have 1: "list_all accepted ?rs"
    by (simp add: accepted_def)
  have snt: "sent ?rs = 6"
    by (simp add: sent_def)
  have 2: "sent ?rs < uint (10 :: u32)"
    by (simp add: snt)
  have cnt: "to_int (10 :: u32) = 10"
    by (simp add: to_int_def)
  have a: "replies (boot (?rs @- reply 4 0 ## ?idle)) = ?rs @- reply 4 0 ## ?idle"
    and b: "replies (boot (?rs @- reply (-1) 104 ## ?idle)) = ?rs @- reply (-1) 104 ## ?idle"
    by simp_all
  have "sent ?rs + ret (reply 4 0) = uint (10 :: u32)"
    by (simp add: snt)
  with write_outcomes [OF 1 2 a, of ?d]
  have wa: "map_option fst (irda_socket_write (Some ?d) 10 (boot (?rs @- reply 4 0 ## ?idle))) = Some 10"
    unfolding cnt by auto
  have "ret (reply (-1) 104) < 0"
    by simp
  with write_outcomes [OF 1 2 b, of ?d]
  have wb: "map_option fst (irda_socket_write (Some ?d) 10 (boot (?rs @- reply (-1) 104 ## ?idle))) = Some (-1)"
    by auto
  from 1 snt wa wb show ?thesis by simp
qed

text \<open>
  Claim C2 as stated fails for sizes above \<open>INT_MAX\<close>. A write of \<open>0xFFFFFFFF\<close> bytes
  is taken completely in three calls (\<open>0x7FFFF000\<close>, \<open>0x7FFFF000\<close> and \<open>0x1FFF\<close>
  bytes); no call fails, and the value returned is \<open>-1\<close>.
\<close>

theorem write_count_returned_as_error_value:
  "list_all accepted [reply 2147479552 0, reply 2147479552 0, reply 8191 0]
   \<and> sent [reply 2147479552 0, reply 2147479552 0, reply 8191 0] = 4294967295
   \<and> irda_socket_write (Some \<lparr>fd = 3, timeout = -1\<rparr>) 4294967295
       (boot ([reply 2147479552 0, reply 2147479552 0, reply 8191 0] @- sconst (reply 0 0))) =
     Some (-1, \<lparr>replies = sconst (reply 0 0),
                trace = [C_send 3 0 4294967295, C_send 3 2147479552 2147487743,
                         C_send 3 4294959104 8191],
                errno = 0\<rparr>)"
  by (simp add: irda_socket_write_def write_loop_send write_loop_full boot_def reply_def
      accepted_def sent_def to_int_def)

subsection \<open>Connecting to a service access point\<close>

text \<open>
  Claim C7, as amended. On a valid handle \<open>irda_socket_connect_lsap\<close> hands \<open>connect\<close> the
  peer address \<open>peer_lsap p address lsap\<close> and returns \<open>-1\<close> or 0 as \<open>connect\<close> fails or
  not. On Windows the bytes of \<open>irdaDeviceID\<close> are the big-endian split of the address
  (\<open>be32\<close> puts them together again) and the service name is the text \<open>LSAP-SEL\<close>
  followed by the number in decimal, in an array of 25 characters. On POSIX the field
  \<open>sir_addr\<close> holds the address as a 32-bit integer, so its bytes are in the byte order
  of the host (the big-endian split on a big-endian host only); the selector
  \<open>sir_lsap_sel\<close> is one byte and holds the number modulo 256; the name is all zero.
\<close>

theorem connect_lsap_peer_address:
  assumes "replies w = r ## rest"
  shows "irda_socket_connect_lsap p (Some d) address lsap w =
           (if ret r \<noteq> 0 then -1 else 0,
            \<lparr>replies = rest,
             trace = trace w @ [C_connect (fd d) (peer_lsap p address lsap)],
             errno = err r\<rparr>)
       \<and> (\<exists>name. peer_lsap WIN32 address lsap =
              Sockaddr_IRDA \<lparr>irdaAddressFamily = AF_IRDA WIN32,
                             sa_irdaDeviceID = split32 address,
                             irdaServiceName = name\<rparr>
            \<and> length name = 25
            \<and> c_str name = ''LSAP-SEL'' @ decimal (unat lsap))
       \<and> be32 (split32 address) = address
       \<and> peer_lsap (POSIX bo) address lsap =
            Sockaddr_irda \<lparr>sir_family = AF_IRDA (POSIX bo),
                           sir_lsap_sel = ucast lsap,
                           sir_addr = store_u32 bo address,
                           sir_name = replicate 25 NUL\<rparr>
       \<and> load_u32 bo (store_u32 bo address) = address
       \<and> store_u32 BigEndian address = split32 address
       \<and> unat (ucast lsap :: u8) = unat lsap mod 256"
proof -
  have call: "irda_socket_connect_lsap p (Some d) address lsap w =
           (if ret r \<noteq> 0 then -1 else 0,
            \<lparr>replies = rest,
             trace = trace w @ [C_connect (fd d) (peer_lsap p address lsap)],
             errno = err r\<rparr>)"
    using assms by (simp add: irda_socket_connect_lsap_def os_def)
  have win: "\<exists>name. peer_lsap WIN32 address lsap =
              Sockaddr_IRDA \<lparr>irdaAddressFamily = AF_IRDA WIN32,
                             sa_irdaDeviceID = split32 address,
                             irdaServiceName = name\<rparr>
            \<and> length name = 25
            \<and> c_str name = ''LSAP-SEL'' @ decimal (unat lsap)"
    using lsap_name [of lsap] by (simp add: peer_lsap_def)
  have posix: "peer_lsap (POSIX bo) address lsap =
            Sockaddr_irda \<lparr>sir_family = AF_IRDA (POSIX bo),
                           sir_lsap_sel = ucast lsap,
                           sir_addr = store_u32 bo address,
                           sir_name = replicate 25 NUL\<rparr>"
    by (simp add: peer_lsap_def zeros_def)
  have big: "store_u32 BigEndian address = split32 address"
    by (cases "split32 address") (simp add: store_u32_def)
  from call win posix big show ?thesis
    by (simp add: be32_split32 load_store_u32 selector_low_byte)
qed

text \<open>Windows, address \<open>0x12345678\<close>, access point 1, a \<open>connect\<close> that succeeds.\<close>

theorem connect_lsap_peer_address_witness:
  "replies (boot (reply 0 0 ## sconst (reply 0 0))) = reply 0 0 ## sconst (reply 0 0)
   \<and> irda_socket_connect_lsap WIN32 (Some \<lparr>fd = 3, timeout = -1\<rparr>) 0x12345678 1
        (boot (reply 0 0 ## sconst (reply 0 0))) =
       (0, \<lparr>replies = sconst (reply 0 0),
            trace = [C_connect 3 (Sockaddr_IRDA
                       \<lparr>irdaAddressFamily = 26,
                        sa_irdaDeviceID = (0x12, 0x34, 0x56, 0x78),
                        irdaServiceName = ''LSAP-SEL1'' @ replicate 16 NUL\<rparr>)],
            errno = 0\<rparr>)"
proof -
  let ?w = "boot (reply 0 0 ## sconst (reply 0 0))"
  have 1: "replies ?w = reply 0 0 ## sconst (reply 0 0)"
    by simp
  have 2: "peer_lsap WIN32 0x12345678 1 = Sockaddr_IRDA
                       \<lparr>irdaAddressFamily = 26,
                        sa_irdaDeviceID = (0x12, 0x34, 0x56, 0x78),
                        irdaServiceName = ''LSAP-SEL1'' @ replicate 16 NUL\<rparr>"
    by (simp add: peer_lsap_def AF_IRDA_def split32_def snprintf_def decimal.simps digit_def)
  from connect_lsap_peer_address [OF 1, of WIN32 "\<lparr>fd = 3, timeout = -1\<rparr>" "0x12345678" 1]
  have "irda_socket_connect_lsap WIN32 (Some \<lparr>fd = 3, timeout = -1\<rparr>) 0x12345678 1 ?w =
           (if ret (reply 0 0) \<noteq> 0 then -1 else 0,
            \<lparr>replies = sconst (reply 0 0),
             trace = trace ?w @ [C_connect (fd \<lparr>fd = 3, timeout = -1\<rparr>) (peer_lsap WIN32 0x12345678 1)],
             errno = err (reply 0 0)\<rparr>)"
    by (rule conjunct1)
  then show ?thesis
    unfolding 2 by simp
qed

text \<open>
  Claim C7 as stated fails on POSIX on a little-endian host: for the address
  \<open>0x12345678\<close> the bytes of \<open>sir_addr\<close> are \<open>78 56 34 12\<close>, not the big-endian split
  \<open>12 34 56 78\<close>; and the access point 300 does not fit the selector, which becomes 44.
\<close>

theorem posix_peer_address_host_order:
  "irda_socket_connect_lsap (POSIX LittleEndian) (Some \<lparr>fd = 3, timeout = -1\<rparr>) 0x12345678 300
     (boot (sconst (reply 0 0))) =
     (0, \<lparr>replies = sconst (reply 0 0),
          trace = [C_connect 3 (Sockaddr_irda
                     \<lparr>sir_family = 23, sir_lsap_sel = 44,
                      sir_addr = (0x78, 0x56, 0x34, 0x12),
                      sir_name = replicate 25 NUL\<rparr>)],
          errno = 0\<rparr>)
   \<and> split32 0x12345678 = (0x12, 0x34, 0x56, 0x78)"
  by (simp add: irda_socket_connect_lsap_def os_def peer_lsap_def AF_IRDA_def store_u32_def
      split32_def zeros_def)

subsection \<open>The timeout\<close>

text \<open>
  Claim C8. \<open>irda_socket_set_timeout\<close> on a valid handle stores any value, negative
  ones included, and returns 0. The read path is the only one that looks at the stored
  value. A read in which the operating system keeps its contract returns, and it has
  called \<open>select\<close> once per round that went through, and once more when the rounds
  did not deliver all the bytes (the call that times out or fails, or the one before
  the \<open>recv\<close> that ends the read). When the stored timeout is negative every one of
  these calls is handed no deadline (\<open>NULL\<close>). When it is not, every call is handed the
  \<open>timeval\<close> of the read: it is computed from the timeout before the first call, and
  later calls find in it what the earlier ones stored there (the same value when the
  system leaves it alone, the time left on Linux). What the other operations do does
  not depend on the timeout. \<open>irda_socket_open\<close> stores \<open>-1\<close>, a negative value.
\<close>

theorem timeout_stored_unchecked:
  "irda_socket_set_timeout (Some d) t = (0, Some (d\<lparr>timeout := t\<rparr>))
   \<and> (list_all ready rs \<and> received rs = uint sz \<and> replies w = round_replies rs @- rest \<longrightarrow>
        (\<exists>rc w' es. irda_socket_read (Some d) sz w = Some (rc, w') \<and> trace w' = trace w @ es
           \<and> selects es = map (Pair (fd d + 1)) (deadlines d (tv_init d) (map fst rs))))
   \<and> (list_all ready rs \<and> received rs < uint sz \<and> replies w = round_replies rs @- rest
        \<and> ret (shd rest) \<le> 0 \<longrightarrow>
        (\<exists>rc w' es. irda_socket_read (Some d) sz w = Some (rc, w') \<and> trace w' = trace w @ es
           \<and> selects es = map (Pair (fd d + 1))
                (deadlines d (tv_init d) (map fst rs)
                 @ [handed d (foldl (tv_next d) (tv_init d) (map fst rs))])))
   \<and> (list_all ready rs \<and> received rs < uint sz \<and> replies w = round_replies rs @- rest
        \<and> 0 < ret (shd rest) \<and> ret (shd (stl rest)) \<le> 0 \<longrightarrow>
        (\<exists>rc w' es. irda_socket_read (Some d) sz w = Some (rc, w') \<and> trace w' = trace w @ es
           \<and> selects es = map (Pair (fd d + 1))
                (deadlines d (tv_init d) (map fst rs)
                 @ [handed d (foldl (tv_next d) (tv_init d) (map fst rs))])))
   \<and> (timeout d < 0 \<longrightarrow>
        handed d tv = None \<and> deadlines d tv ss = replicate (length ss) None)
   \<and> (0 \<le> timeout d \<longrightarrow>
        handed d tv = Some tv
        \<and> tv_init d = \<lparr>tv_sec = timeout d div 1000, tv_usec = (timeout d mod 1000) * 1000\<rparr>)
   \<and> (list_all (\<lambda>s. out_tv s = None) ss \<longrightarrow>
        deadlines d tv ss = replicate (length ss) (handed d tv)
        \<and> foldl (tv_next d) tv ss = tv)
   \<and> (0 \<le> timeout d \<and> out_tv s = Some tv' \<longrightarrow> tv_next d tv s = tv')
   \<and> (ret m \<noteq> 0 \<and> ret sk \<noteq> -1 \<and> replies w0 = m ## sk ## rest0 \<longrightarrow>
        irda_socket_open p True w0 =
          (0, Some \<lparr>fd = ret sk, timeout = -1\<rparr>,
           \<lparr>replies = rest0, trace = trace w0 @ [C_malloc, C_socket (AF_IRDA p)],
            errno = err sk\<rparr>))
   \<and> irda_socket_close (Some (d\<lparr>timeout := t\<rparr>)) w = irda_socket_close (Some d) w
   \<and> irda_socket_discover p (Some (d\<lparr>timeout := t\<rparr>)) callback userdata w
       = irda_socket_discover p (Some d) callback userdata w
   \<and> irda_socket_connect_name p (Some (d\<lparr>timeout := t\<rparr>)) address name w
       = irda_socket_connect_name p (Some d) address name w
   \<and> irda_socket_connect_lsap p (Some (d\<lparr>timeout := t\<rparr>)) address lsap w
       = irda_socket_connect_lsap p (Some d) address lsap w
   \<and> irda_socket_available p (Some (d\<lparr>timeout := t\<rparr>)) w = irda_socket_available p (Some d) w
   \<and> irda_socket_write (Some (d\<lparr>timeout := t\<rparr>)) sz w = irda_socket_write (Some d) sz w"
proof -
  let ?n = "fd d + 1"
  let ?nb = "word_of_int (received rs) :: u32"
  let ?tv = "foldl (tv_next d) (tv_init d) (map fst rs)"
  let ?ds = "deadlines d (tv_init d) (map fst rs)"
  have full: "list_all ready rs \<and> received rs = uint sz \<and> replies w = round_replies rs @- rest \<longrightarrow>
        (\<exists>rc w' es. irda_socket_read (Some d) sz w = Some (rc, w') \<and> trace w' = trace w @ es
           \<and> selects es = map (Pair ?n) ?ds)"
  proof (intro impI)
    assume a: "list_all ready rs \<and> received rs = uint sz \<and> replies w = round_replies rs @- rest"
    with read_after_rounds [of rs sz w rest d] obtain w1 es where
      rd: "irda_socket_read (Some d) sz w = read_loop d sz ?tv ?nb w1"
      and nb: "uint ?nb = received rs" and w1: "trace w1 = trace w @ es" "selects es = map (Pair ?n) ?ds"
      by auto
    from a nb have "\<not> ?nb < sz" by (simp add: word_less_def)
    then have "irda_socket_read (Some d) sz w = Some (to_int ?nb, w1)"
      by (simp add: rd read_loop_full)
    with w1 show "\<exists>rc w' es. irda_socket_read (Some d) sz w = Some (rc, w') \<and> trace w' = trace w @ es
           \<and> selects es = map (Pair ?n) ?ds"
      by blast
  qed
  have sel: "list_all ready rs \<and> received rs < uint sz \<and> replies w = round_replies rs @- rest
        \<and> ret (shd rest) \<le> 0 \<longrightarrow>
        (\<exists>rc w' es. irda_socket_read (Some d) sz w = Some (rc, w') \<and> trace w' = trace w @ es
           \<and> selects es = map (Pair ?n) (?ds @ [handed d ?tv]))"
  proof (intro impI)
    assume a: "list_all ready rs \<and> received rs < uint sz \<and> replies w = round_replies rs @- rest
        \<and> ret (shd rest) \<le> 0"
    with read_after_rounds [of rs sz w rest d] obtain w1 es where
      rd: "irda_socket_read (Some d) sz w = read_loop d sz ?tv ?nb w1"
      and nb: "uint ?nb = received rs" and w1: "replies w1 = rest" "trace w1 = trace w @ es"
        "selects es = map (Pair ?n) ?ds"
      by auto
    from a nb have more: "?nb < sz" by (simp add: word_less_def)
    let ?w2 = "\<lparr>replies = stl (replies w1), trace = trace w1 @ [C_select ?n (handed d ?tv)],
      errno = err (shd (replies w1))\<rparr>"
    have "\<exists>rc. read_loop d sz ?tv ?nb w1 = Some (rc, ?w2)"
    proof (cases "ret (shd rest) < 0")
      case True
      with read_loop_select_error [of ?nb sz w1 d ?tv] more w1 show ?thesis by simp
    next
      case False
      with a have "ret (shd rest) = 0" by simp
      with read_loop_timeout [of ?nb sz w1 d ?tv] more w1 show ?thesis by simp
    qed
    then obtain rc where "irda_socket_read (Some d) sz w = Some (rc, ?w2)"
      by (auto simp: rd)
    moreover have "trace ?w2 = trace w @ (es @ [C_select ?n (handed d ?tv)])"
      using w1 by simp
    moreover have "selects (es @ [C_select ?n (handed d ?tv)]) = map (Pair ?n) (?ds @ [handed d ?tv])"
      using w1 by (simp add: selects_append)
    ultimately show "\<exists>rc w' es. irda_socket_read (Some d) sz w = Some (rc, w') \<and> trace w' = trace w @ es
           \<and> selects es = map (Pair ?n) (?ds @ [handed d ?tv])"
      by blast
  qed
  have rcv: "list_all ready rs \<and> received rs < uint sz \<and> replies w = round_replies rs @- rest
        \<and> 0 < ret (shd rest) \<and> ret (shd (stl rest)) \<le> 0 \<longrightarrow>
        (\<exists>rc w' es. irda_socket_read (Some d) sz w = Some (rc, w') \<and> trace w' = trace w @ es
           \<and> selects es = map (Pair ?n) (?ds @ [handed d ?tv]))"
  proof (intro impI)
    assume a: "list_all ready rs \<and> received rs < uint sz \<and> replies w = round_replies rs @- rest
        \<and> 0 < ret (shd rest) \<and> ret (shd (stl rest)) \<le> 0"
    with read_after_rounds [of rs sz w rest d] obtain w1 es where
      rd: "irda_socket_read (Some d) sz w = read_loop d sz ?tv ?nb w1"
      and nb: "uint ?nb = received rs" and w1: "replies w1 = rest" "trace w1 = trace w @ es"
        "selects es = map (Pair ?n) ?ds"
      by auto
    from a nb have more: "?nb < sz" by (simp add: word_less_def)
    let ?calls = "[C_select ?n (handed d ?tv), C_recv (fd d) ?nb (sz - ?nb)]"
    let ?w2 = "\<lparr>replies = stl (stl (replies w1)), trace = trace w1 @ ?calls,
      errno = err (shd (stl (replies w1)))\<rparr>"
    have "\<exists>rc. read_loop d sz ?tv ?nb w1 = Some (rc, ?w2)"
    proof (cases "ret (shd (stl rest)) < 0")
      case True
      with read_loop_recv_error [of ?nb sz w1 d ?tv] more w1 a show ?thesis by simp
    next
      case False
      with a have "ret (shd (stl rest)) = 0" by simp
      with read_loop_eof [of ?nb sz w1 d ?tv] more w1 a show ?thesis by simp
    qed
    then obtain rc where "irda_socket_read (Some d) sz w = Some (rc, ?w2)"
      by (auto simp: rd)
    moreover have "trace ?w2 = trace w @ (es @ ?calls)"
      using w1 by simp
    moreover have "selects (es @ ?calls) = map (Pair ?n) (?ds @ [handed d ?tv])"
      using w1 by (simp add: selects_append)
    ultimately show "\<exists>rc w' es. irda_socket_read (Some d) sz w = Some (rc, w') \<and> trace w' = trace w @ es
           \<and> selects es = map (Pair ?n) (?ds @ [handed d ?tv])"
      by blast
  qed
  have neg: "timeout d < 0 \<longrightarrow>
        handed d tv = None \<and> deadlines d tv ss = replicate (length ss) None"
    by (simp add: handed_def deadlines_negative)
  have pos: "0 \<le> timeout d \<longrightarrow>
        handed d tv = Some tv
        \<and> tv_init d = \<lparr>tv_sec = timeout d div 1000, tv_usec = (timeout d mod 1000) * 1000\<rparr>"
    by (simp add: handed_def tv_init_def)
  have same: "list_all (\<lambda>s. out_tv s = None) ss \<longrightarrow>
        deadlines d tv ss = replicate (length ss) (handed d tv)
        \<and> foldl (tv_next d) tv ss = tv"
    using deadlines_untouched [of ss d tv] by blast
  have left: "0 \<le> timeout d \<and> out_tv s = Some tv' \<longrightarrow> tv_next d tv s = tv'"
    by (simp add: tv_next_def)
  have opn: "ret m \<noteq> 0 \<and> ret sk \<noteq> -1 \<and> replies w0 = m ## sk ## rest0 \<longrightarrow>
        irda_socket_open p True w0 =
          (0, Some \<lparr>fd = ret sk, timeout = -1\<rparr>,
           \<lparr>replies = rest0, trace = trace w0 @ [C_malloc, C_socket (AF_IRDA p)],
            errno = err sk\<rparr>)"
    by (simp add: irda_socket_open_def os_def)
  have others: "irda_socket_set_timeout (Some d) t = (0, Some (d\<lparr>timeout := t\<rparr>))"
    "irda_socket_close (Some (d\<lparr>timeout := t\<rparr>)) w = irda_socket_close (Some d) w"
    "irda_socket_discover p (Some (d\<lparr>timeout := t\<rparr>)) callback userdata w
       = irda_socket_discover p (Some d) callback userdata w"
    "irda_socket_connect_name p (Some (d\<lparr>timeout := t\<rparr>)) address name w
       = irda_socket_connect_name p (Some d) address name w"
    "irda_socket_connect_lsap p (Some (d\<lparr>timeout := t\<rparr>)) address lsap w
       = irda_socket_connect_lsap p (Some d) address lsap w"
    "irda_socket_available p (Some (d\<lparr>timeout := t\<rparr>)) w = irda_socket_available p (Some d) w"
    "irda_socket_write (Some (d\<lparr>timeout := t\<rparr>)) sz w = irda_socket_write (Some d) sz w"
    by (simp_all add: irda_socket_set_timeout_def irda_socket_close_def
        irda_socket_discover_def irda_socket_connect_name_def irda_socket_connect_lsap_def
        irda_socket_available_def irda_socket_write_def)
  from others(1) full sel rcv neg pos same left opn others(2-7) show ?thesis
    by (intro conjI) assumption+
qed

text \<open>
  A timeout of 2500 ms stored over \<open>-7\<close>. A read of 10 bytes with the timeout \<open>-7\<close>
  that gets 4 bytes and then waits in vain: both calls of \<open>select\<close> get no deadline.
  The same read with the timeout 2500 on a system that stores the time left: the first
  \<open>select\<close> gets 2.5 s, the second the 0.799728 s the first one left. An open that
  succeeds.
\<close>

theorem timeout_stored_unchecked_witness:
  "irda_socket_set_timeout (Some \<lparr>fd = 3, timeout = -7\<rparr>) 2500 = (0, Some \<lparr>fd = 3, timeout = 2500\<rparr>)
   \<and> list_all ready [(reply 1 0, reply 4 0)]
   \<and> received [(reply 1 0, reply 4 0)] < uint (10 :: u32)
   \<and> ret (shd (reply 0 0 ## sconst (reply 0 0))) \<le> 0
   \<and> irda_socket_read (Some \<lparr>fd = 3, timeout = -7\<rparr>) 10
        (boot (round_replies [(reply 1 0, reply 4 0)] @- reply 0 0 ## sconst (reply 0 0))) =
       Some (4, \<lparr>replies = sconst (reply 0 0),
                 trace = [C_select 4 None, C_recv 3 0 10, C_select 4 None], errno = 0\<rparr>)
   \<and> (\<exists>rc w' es. irda_socket_read (Some \<lparr>fd = 3, timeout = -7\<rparr>) 10
          (boot (round_replies [(reply 1 0, reply 4 0)] @- reply 0 0 ## sconst (reply 0 0)))
            = Some (rc, w')
        \<and> trace w' = es \<and> selects es = [(4, None), (4, None)])
   \<and> list_all ready [((reply 1 0)\<lparr>out_tv := Some \<lparr>tv_sec = 0, tv_usec = 799728\<rparr>\<rparr>, reply 4 0)]
   \<and> (\<exists>rc w' es. irda_socket_read (Some \<lparr>fd = 3, timeout = 2500\<rparr>) 10
          (boot (round_replies
                   [((reply 1 0)\<lparr>out_tv := Some \<lparr>tv_sec = 0, tv_usec = 799728\<rparr>\<rparr>, reply 4 0)]
                 @- reply 0 0 ## sconst (reply 0 0)))
            = Some (rc, w')
        \<and> trace w' = es
        \<and> selects es = [(4, Some \<lparr>tv_sec = 2, tv_usec = 500000\<rparr>),
                         (4, Some \<lparr>tv_sec = 0, tv_usec = 799728\<rparr>)])
   \<and> ret (reply 4096 0) \<noteq> 0 \<and> ret (reply 3 0) \<noteq> -1
   \<and> irda_socket_open WIN32 True (boot (reply 4096 0 ## reply 3 0 ## sconst (reply 0 0))) =
       (0, Some \<lparr>fd = 3, timeout = -1\<rparr>,
        \<lparr>replies = sconst (reply 0 0), trace = [C_malloc, C_socket 26], errno = 0\<rparr>)"
proof -
  let ?d = "\<lparr>fd = 3, timeout = -7\<rparr>"
  let ?e = "\<lparr>fd = 3, timeout = 2500\<rparr>"
  let ?idle = "sconst (reply 0 0)"
  let ?rest = "reply 0 0 ## ?idle"
  let ?rs = "[(reply 1 0, reply 4 0)]"
  let ?ls = "[((reply 1 0)\<lparr>out_tv := Some \<lparr>tv_sec = 0, tv_usec = 799728\<rparr>\<rparr>, reply 4 0)]"
  let ?w = "boot (round_replies ?rs @- ?rest)"
  let ?v = "boot (round_replies ?ls @- ?rest)"
  let ?u = "boot (reply 4096 0 ## reply 3 0 ## ?idle)"
  have st: "irda_socket_set_timeout (Some ?d) 2500 = (0, Some (?d\<lparr>timeout := 2500\<rparr>))"
    using timeout_stored_unchecked [where d = ?d and t = 2500] by (rule conjunct1)
  have a: "list_all ready ?rs \<and> received ?rs < uint (10 :: u32) \<and> replies ?w = round_replies ?rs @- ?rest
      \<and> ret (shd ?rest) \<le> 0"
    by (simp add: ready_def received_def)
  have da: "map (Pair (fd ?d + 1)) (deadlines ?d (tv_init ?d) (map fst ?rs)
      @ [handed ?d (foldl (tv_next ?d) (tv_init ?d) (map fst ?rs))]) = [(4, None), (4, None)]"
    by (simp add: handed_def)
  from timeout_stored_unchecked [where d = ?d and rs = ?rs and sz = 10 and w = ?w and rest = ?rest] a
  have ra: "\<exists>rc w' es. irda_socket_read (Some ?d) 10 ?w = Some (rc, w') \<and> trace w' = trace ?w @ es
      \<and> selects es = [(4, None), (4, None)]"
    unfolding da [symmetric] by blast
  have rd: "irda_socket_read (Some ?d) 10 ?w =
       Some (4, \<lparr>replies = ?idle, trace = [C_select 4 None, C_recv 3 0 10, C_select 4 None],
                 errno = 0\<rparr>)"
    by (simp add: irda_socket_read_def read_loop_round read_loop_timeout round_replies_def
        handed_def to_int_def)
  have b: "list_all ready ?ls \<and> received ?ls < uint (10 :: u32) \<and> replies ?v = round_replies ?ls @- ?rest
      \<and> ret (shd ?rest) \<le> 0"
    by (simp add: ready_def received_def)
  have db: "map (Pair (fd ?e + 1)) (deadlines ?e (tv_init ?e) (map fst ?ls)
      @ [handed ?e (foldl (tv_next ?e) (tv_init ?e) (map fst ?ls))])
      = [(4, Some \<lparr>tv_sec = 2, tv_usec = 500000\<rparr>), (4, Some \<lparr>tv_sec = 0, tv_usec = 799728\<rparr>)]"
    by (simp add: handed_def tv_next_def tv_init_def)
  from timeout_stored_unchecked [where d = ?e and rs = ?ls and sz = 10 and w = ?v and rest = ?rest] b
  have rb: "\<exists>rc w' es. irda_socket_read (Some ?e) 10 ?v = Some (rc, w') \<and> trace w' = trace ?v @ es
      \<and> selects es = [(4, Some \<lparr>tv_sec = 2, tv_usec = 500000\<rparr>),
                      (4, Some \<lparr>tv_sec = 0, tv_usec = 799728\<rparr>)]"
    unfolding db [symmetric] by blast
  have c: "ret (reply 4096 0) \<noteq> 0 \<and> ret (reply 3 0) \<noteq> -1
      \<and> replies ?u = reply 4096 0 ## reply 3 0 ## ?idle"
    by simp
  from timeout_stored_unchecked [where m = "reply 4096 0" and sk = "reply 3 0" and ?w0.0 = ?u
      and ?rest0.0 = ?idle and p = WIN32] c
  have op: "irda_socket_open WIN32 True ?u =
          (0, Some \<lparr>fd = ret (reply 3 0), timeout = -1\<rparr>,
           \<lparr>replies = ?idle, trace = trace ?u @ [C_malloc, C_socket (AF_IRDA WIN32)],
            errno = err (reply 3 0)\<rparr>)"
    by blast
  from st a ra rd b rb op show ?thesis
    by (simp add: AF_IRDA_def)
qed

subsection \<open>The value returned on failure\<close>




end
